theory Spec2Isabelle
  imports Main "HOL-Library.Sublist"
begin

section \<open>Result payloads of the language service\<close>

text \<open>
  The payloads are the host API's structures, reduced to the fields the decoration layer
  reads or writes plus the fields that identify an item. Offsets are JavaScript numbers
  holding integers and are modelled as \<open>int\<close>. A property that holds a text span is
  modelled as \<open>textSpan option\<close>, the parameter type \<open>TS.TextSpan | undefined\<close>
  of \<open>translateTextSpan\<close>, to which such properties are handed; \<open>None\<close> is
  \<open>undefined\<close>. Payloads that the layer only passes on (\<open>options\<close>, display
  texts) are strings.
\<close>

record textSpan =
  span_start :: int
  span_length :: int

type_synonym options = string

record completionEntry =
  entry_name :: string
  entry_kind :: string
  entry_sortText :: string
  entry_insertText :: "string option"
  entry_replacementSpan :: "textSpan option"

record completionInfo =
  isGlobalCompletion :: bool
  isMemberCompletion :: bool
  isNewIdentifierLocation :: bool
  entries :: "completionEntry list"

record completionEntryDetails =
  details_name :: string
  details_kind :: string
  details_documentation :: string

record quickInfo =
  quick_kind :: string
  quick_textSpan :: "textSpan option"
  quick_displayParts :: string

record definitionInfo =
  def_fileName :: string
  def_textSpan :: "textSpan option"
  def_name :: string

record definitionInfoAndBoundSpan =
  bound_definitions :: "definitionInfo list option"
  bound_textSpan :: "textSpan option"

text \<open>
  The diagnostics wrappers read \<open>diagnostic.start!\<close>: the non-null assertion restricts
  them to diagnostics that carry a start offset, so \<open>diag_start\<close> is an \<open>int\<close>.
\<close>

record diagnostic =
  diag_start :: int
  diag_length :: int
  diag_code :: int
  diag_messageText :: string

record textChange =
  change_span :: "textSpan option"
  change_newText :: string

record fileTextChanges =
  file_fileName :: string
  file_textChanges :: "textChange list"

record codeFixAction =
  fix_fixName :: string
  fix_description :: string
  fix_changes :: "fileTextChanges list"

record signatureHelpItems =
  sig_items :: "string list"
  sig_applicableSpan :: "textSpan option"
  sig_selectedItemIndex :: int

record outliningSpan =
  outline_textSpan :: "textSpan option"
  outline_hintSpan :: "textSpan option"
  outline_bannerText :: string

record referenceEntry =
  ref_fileName :: string
  ref_textSpan :: "textSpan option"

record referencedSymbol =
  sym_definition :: definitionInfo
  sym_references :: "referenceEntry list"

record jsxClosingTagInfo =
  jsx_newText :: string

section \<open>Templates and the template provider\<close>

text \<open>
  The classes \<open>Template\<close> and \<open>TemplateProvider\<close> of \<open>../template-service\<close> are
  imported by the decorator and are not among the source files. A template is its global
  range; its three methods follow the specification. The provider is a parameter of the
  decoration layer: a record of its two methods, so that every statement about the layer
  holds for any provider.
\<close>

record template =
  globalStart :: int
  globalEnd :: int

text \<open>Modelled from the spec: \<open>Template.globalOffsetToLocal\<close> is missing from the
  sources; the specification gives \<open>globalToLocal(o) = o - start\<close>.\<close>

definition globalOffsetToLocal :: "template \<Rightarrow> int \<Rightarrow> int" where
  "globalOffsetToLocal t gloOffset = gloOffset - globalStart t"

text \<open>Modelled from the spec: \<open>Template.localOffsetToGlobal\<close> is missing from the
  sources; the specification gives \<open>localToGlobal(o) = o + start\<close>.\<close>

definition localOffsetToGlobal :: "template \<Rightarrow> int \<Rightarrow> int" where
  "localOffsetToGlobal t temOffset = temOffset + globalStart t"

text \<open>Modelled from the spec: \<open>Template.intersectWith\<close> is missing from the sources;
  the specification gives "true iff [s,e) overlaps [start,end)", that is, the two
  half-open ranges share an offset.\<close>

definition intersectWith :: "template \<Rightarrow> int \<Rightarrow> int \<Rightarrow> bool" where
  "intersectWith t s e = (max (globalStart t) s < min (globalEnd t) e)"

record templateProvider =
  getTemplateAt :: "string \<Rightarrow> int \<Rightarrow> template option"
  getAllTemplates :: "string \<Rightarrow> template list"

text \<open>Modelled from the spec: the class \<open>TemplateProvider\<close> is missing from the
  sources. The specification's locator returns, for \<open>findTemplateAt\<close>, the template
  whose range \<open>[start,end)\<close> contains the global offset and, for \<open>findAllTemplates\<close>,
  the templates of the document in order. \<open>docs\<close> gives each document's templates.\<close>

definition locatorOf :: "(string \<Rightarrow> template list) \<Rightarrow> templateProvider" where
  "locatorOf docs =
     \<lparr> getTemplateAt = (\<lambda>fileName gloOffset.
         find (\<lambda>t. globalStart t \<le> gloOffset \<and> gloOffset < globalEnd t) (docs fileName)),
       getAllTemplates = docs \<rparr>"

section \<open>The template language service\<close>

text \<open>
  \<open>TemplateLanguageService\<close> is the interface of the template-aware service: every
  method is optional, and the decorator tests each for presence. A method that is not
  implemented is \<open>None\<close>. The interface's declaration is not among the source files;
  the argument lists are those of the calls in the decorator.
\<close>

record templateLanguageService =
  getCompletionsAtPosition ::
    "(template \<Rightarrow> int \<Rightarrow> options \<Rightarrow> completionInfo option) option"
  getCompletionEntryDetails ::
    "(template \<Rightarrow> int \<Rightarrow> string \<Rightarrow> options \<Rightarrow> completionEntryDetails option) option"
  getQuickInfoAtPosition :: "(template \<Rightarrow> int \<Rightarrow> quickInfo option) option"
  getDefinitionAtPosition :: "(template \<Rightarrow> int \<Rightarrow> definitionInfo list option) option"
  getDefinitionAndBoundSpan ::
    "(template \<Rightarrow> int \<Rightarrow> definitionInfoAndBoundSpan option) option"
  getSemanticDiagnostics :: "(template \<Rightarrow> diagnostic list) option"
  getSyntacticDiagnostics :: "(template \<Rightarrow> diagnostic list) option"
  getFormattingEditsForRange ::
    "(template \<Rightarrow> int \<Rightarrow> int \<Rightarrow> options \<Rightarrow> textChange list) option"
  getCodeFixesAtPosition ::
    "(template \<Rightarrow> int \<Rightarrow> int \<Rightarrow> int list \<Rightarrow> options \<Rightarrow> options \<Rightarrow> codeFixAction list) option"
  getSupportedCodeFixes :: "(unit \<Rightarrow> int list) option"
  getSignatureHelpItemsAtPosition ::
    "(template \<Rightarrow> int \<Rightarrow> options option \<Rightarrow> signatureHelpItems option) option"
  getOutliningSpans :: "(template \<Rightarrow> outliningSpan list) option"
  getReferencesAtPosition :: "(template \<Rightarrow> int \<Rightarrow> referencedSymbol list option) option"
  getJsxClosingTagAtPosition :: "(template \<Rightarrow> int \<Rightarrow> jsxClosingTagInfo option) option"

section \<open>Calls made by a wrapper\<close>

text \<open>
  A wrapper calls the host operation through \<open>callOriginal\<close> and the template service
  through one of its methods. Which of these calls a wrapper makes, in which order and
  with which template and local offsets, is recorded in a log that every wrapper returns
  beside its result. The objects a handler returns are mutated in place by the wrappers;
  the model returns the updated values, each handler result being a value of its own.
\<close>

datatype event =
  CallOriginal
  | CallTemplateService string template "int list"

type_synonym 'r logged = "'r \<times> event list"

section \<open>Span translation\<close>

text \<open>\<open>translateTextSpan\<close>: from template origin to global origin. The method writes
  \<open>textSpan.start\<close> when the span is there and writes nothing otherwise; the model
  returns the span after the call.\<close>

definition translateTextSpan ::
  "'a textSpan_scheme option \<Rightarrow> template \<Rightarrow> 'a textSpan_scheme option" where
  "translateTextSpan textSpan template =
     (case textSpan of
        None \<Rightarrow> None
      | Some s \<Rightarrow> Some (s\<lparr>span_start := localOffsetToGlobal template (span_start s)\<rparr>))"

section \<open>The proxy and its wrappers\<close>

text \<open>
  The fields \<open>templateService\<close> and \<open>templateProvider\<close> of the class
  \<open>TSLanguageServiceProxy\<close>; the closures registered by the \<open>wrap...\<close> methods read
  them through \<open>this\<close>. The constructor takes both as arguments here, the classes
  \<open>TemplateServiceRouter\<close> and \<open>TemplateProvider\<close> that it instantiates being outside
  the source files.
\<close>

record serviceProxy =
  templateService :: templateLanguageService
  templateProvider :: templateProvider

text \<open>
  The host language service \<open>this.context.service\<close>: the operations the proxy can
  intercept, with the parameters the wrappers name, and under \<open>raw_otherOperations\<close>
  every other operation of the service by its property name.
\<close>

record languageService =
  raw_getCompletionsAtPosition :: "string \<Rightarrow> int \<Rightarrow> options \<Rightarrow> completionInfo option"
  raw_getCompletionEntryDetails ::
    "string \<Rightarrow> int \<Rightarrow> string \<Rightarrow> options \<Rightarrow> completionEntryDetails option"
  raw_getQuickInfoAtPosition :: "string \<Rightarrow> int \<Rightarrow> quickInfo option"
  raw_getDefinitionAtPosition :: "string \<Rightarrow> int \<Rightarrow> definitionInfo list option"
  raw_getDefinitionAndBoundSpan :: "string \<Rightarrow> int \<Rightarrow> definitionInfoAndBoundSpan option"
  raw_getSemanticDiagnostics :: "string \<Rightarrow> diagnostic list"
  raw_getSyntacticDiagnostics :: "string \<Rightarrow> diagnostic list"
  raw_getFormattingEditsForRange :: "string \<Rightarrow> int \<Rightarrow> int \<Rightarrow> options \<Rightarrow> textChange list"
  raw_getCodeFixesAtPosition ::
    "string \<Rightarrow> int \<Rightarrow> int \<Rightarrow> int list \<Rightarrow> options \<Rightarrow> options \<Rightarrow> codeFixAction list"
  raw_getSignatureHelpItems :: "string \<Rightarrow> int \<Rightarrow> options option \<Rightarrow> signatureHelpItems option"
  raw_getOutliningSpans :: "string \<Rightarrow> outliningSpan list"
  raw_findReferences :: "string \<Rightarrow> int \<Rightarrow> referencedSymbol list option"
  raw_getJsxClosingTagAtPosition :: "string \<Rightarrow> int \<Rightarrow> jsxClosingTagInfo option"
  raw_otherOperations :: "string \<Rightarrow> string list \<Rightarrow> string"

text \<open>
  \<open>this.wrappers\<close>: the list of \<open>{name, wrapper}\<close> that \<open>wrap\<close> fills and from
  which \<open>decorate\<close> builds a map keyed by the name. Every name is a key of
  \<open>TS.LanguageService\<close> with a wrapper of that operation's type, and no name is
  registered twice, so the list is a record with one optional wrapper per name:
  \<open>wrap('findReferences', w)\<close> is the update \<open>wrapped_findReferences := Some w\<close>.
  A wrapper takes \<open>callOriginal\<close> and the operation's arguments.
\<close>

record wrappers =
  wrapped_getCompletionsAtPosition ::
    "((unit \<Rightarrow> completionInfo option) \<Rightarrow> string \<Rightarrow> int \<Rightarrow> options
      \<Rightarrow> completionInfo option logged) option"
  wrapped_getCompletionEntryDetails ::
    "((unit \<Rightarrow> completionEntryDetails option) \<Rightarrow> string \<Rightarrow> int \<Rightarrow> string \<Rightarrow> options
      \<Rightarrow> completionEntryDetails option logged) option"
  wrapped_getQuickInfoAtPosition ::
    "((unit \<Rightarrow> quickInfo option) \<Rightarrow> string \<Rightarrow> int \<Rightarrow> quickInfo option logged) option"
  wrapped_getDefinitionAtPosition ::
    "((unit \<Rightarrow> definitionInfo list option) \<Rightarrow> string \<Rightarrow> int
      \<Rightarrow> definitionInfo list option logged) option"
  wrapped_getDefinitionAndBoundSpan ::
    "((unit \<Rightarrow> definitionInfoAndBoundSpan option) \<Rightarrow> string \<Rightarrow> int
      \<Rightarrow> definitionInfoAndBoundSpan option logged) option"
  wrapped_getSemanticDiagnostics ::
    "((unit \<Rightarrow> diagnostic list) \<Rightarrow> string \<Rightarrow> diagnostic list logged) option"
  wrapped_getSyntacticDiagnostics ::
    "((unit \<Rightarrow> diagnostic list) \<Rightarrow> string \<Rightarrow> diagnostic list logged) option"
  wrapped_getFormattingEditsForRange ::
    "((unit \<Rightarrow> textChange list) \<Rightarrow> string \<Rightarrow> int \<Rightarrow> int \<Rightarrow> options
      \<Rightarrow> textChange list logged) option"
  wrapped_getCodeFixesAtPosition ::
    "((unit \<Rightarrow> codeFixAction list) \<Rightarrow> string \<Rightarrow> int \<Rightarrow> int \<Rightarrow> int list \<Rightarrow> options \<Rightarrow> options
      \<Rightarrow> codeFixAction list logged) option"
  wrapped_getSignatureHelpItems ::
    "((unit \<Rightarrow> signatureHelpItems option) \<Rightarrow> string \<Rightarrow> int \<Rightarrow> options option
      \<Rightarrow> signatureHelpItems option logged) option"
  wrapped_getOutliningSpans ::
    "((unit \<Rightarrow> outliningSpan list) \<Rightarrow> string \<Rightarrow> outliningSpan list logged) option"
  wrapped_findReferences ::
    "((unit \<Rightarrow> referencedSymbol list option) \<Rightarrow> string \<Rightarrow> int
      \<Rightarrow> referencedSymbol list option logged) option"
  wrapped_getJsxClosingTagAtPosition ::
    "((unit \<Rightarrow> jsxClosingTagInfo option) \<Rightarrow> string \<Rightarrow> int
      \<Rightarrow> jsxClosingTagInfo option logged) option"

definition noWrappers :: wrappers where
  "noWrappers =
     \<lparr> wrapped_getCompletionsAtPosition = None, wrapped_getCompletionEntryDetails = None,
       wrapped_getQuickInfoAtPosition = None, wrapped_getDefinitionAtPosition = None,
       wrapped_getDefinitionAndBoundSpan = None, wrapped_getSemanticDiagnostics = None,
       wrapped_getSyntacticDiagnostics = None, wrapped_getFormattingEditsForRange = None,
       wrapped_getCodeFixesAtPosition = None, wrapped_getSignatureHelpItems = None,
       wrapped_getOutliningSpans = None, wrapped_findReferences = None,
       wrapped_getJsxClosingTagAtPosition = None \<rparr>"

subsection \<open>Replace with the template result at a position\<close>

definition getCompletionsAtPositionWrapper ::
  "serviceProxy \<Rightarrow> (unit \<Rightarrow> completionInfo option) \<Rightarrow> string \<Rightarrow> int \<Rightarrow> options
   \<Rightarrow> completionInfo option logged" where
  "getCompletionsAtPositionWrapper this callOriginal fileName gloOffset options =
     (case getTemplateAt (templateProvider this) fileName gloOffset of
        None \<Rightarrow> (callOriginal (), [CallOriginal])
      | Some template \<Rightarrow>
          (case getCompletionsAtPosition (templateService this) of
             Some handler \<Rightarrow>
               (let temOffset = globalOffsetToLocal template gloOffset;
                    info = handler template temOffset options
                in (map_option
                      (\<lambda>info. info\<lparr>entries :=
                         map (\<lambda>entry. entry\<lparr>entry_replacementSpan :=
                                translateTextSpan (entry_replacementSpan entry) template\<rparr>)
                           (entries info)\<rparr>)
                      info,
                    [CallTemplateService ''getCompletionsAtPosition'' template [temOffset]]))
           | None \<Rightarrow> (None, [])))"

definition wrapGetCompletionsAtPosition :: "serviceProxy \<Rightarrow> wrappers \<Rightarrow> wrappers" where
  "wrapGetCompletionsAtPosition this ws =
     (case getCompletionsAtPosition (templateService this) of
        None \<Rightarrow> ws
      | Some _ \<Rightarrow>
          ws\<lparr>wrapped_getCompletionsAtPosition := Some (getCompletionsAtPositionWrapper this)\<rparr>)"

definition getCompletionEntryDetailsWrapper ::
  "serviceProxy \<Rightarrow> (unit \<Rightarrow> completionEntryDetails option) \<Rightarrow> string \<Rightarrow> int \<Rightarrow> string \<Rightarrow> options
   \<Rightarrow> completionEntryDetails option logged" where
  "getCompletionEntryDetailsWrapper this callOriginal fileName gloOffset name options =
     (case getTemplateAt (templateProvider this) fileName gloOffset of
        None \<Rightarrow> (callOriginal (), [CallOriginal])
      | Some template \<Rightarrow>
          (case getCompletionEntryDetails (templateService this) of
             Some handler \<Rightarrow>
               (let temOffset = globalOffsetToLocal template gloOffset;
                    entry = handler template temOffset name options
                in (entry,
                    [CallTemplateService ''getCompletionEntryDetails'' template [temOffset]]))
           | None \<Rightarrow> (None, [])))"

definition wrapGetCompletionEntryDetails :: "serviceProxy \<Rightarrow> wrappers \<Rightarrow> wrappers" where
  "wrapGetCompletionEntryDetails this ws =
     (case getCompletionEntryDetails (templateService this) of
        None \<Rightarrow> ws
      | Some _ \<Rightarrow>
          ws\<lparr>wrapped_getCompletionEntryDetails := Some (getCompletionEntryDetailsWrapper this)\<rparr>)"

text \<open>
  The remaining wrappers call their method as \<open>this.templateService.m!(...)\<close>. The
  field \<open>templateService\<close> is readonly and a wrapper is registered only behind the guard
  \<open>if (!this.templateService.m) return\<close>, so the method read at the call is the one
  the guard found: the wrapper takes it as \<open>handler\<close>. Every other read of
  \<open>this.templateService\<close> inside a wrapper stays a read of \<open>this\<close>.
\<close>

definition getQuickInfoAtPositionWrapper ::
  "serviceProxy \<Rightarrow> (template \<Rightarrow> int \<Rightarrow> quickInfo option)
   \<Rightarrow> (unit \<Rightarrow> quickInfo option) \<Rightarrow> string \<Rightarrow> int \<Rightarrow> quickInfo option logged" where
  "getQuickInfoAtPositionWrapper this handler callOriginal fileName gloOffset =
     (case getTemplateAt (templateProvider this) fileName gloOffset of
        None \<Rightarrow> (callOriginal (), [CallOriginal])
      | Some template \<Rightarrow>
          (case getCompletionEntryDetails (templateService this) of
             Some _ \<Rightarrow>
               (let temOffset = globalOffsetToLocal template gloOffset;
                    info = handler template temOffset
                in (map_option
                      (\<lambda>info. info\<lparr>quick_textSpan :=
                         translateTextSpan (quick_textSpan info) template\<rparr>)
                      info,
                    [CallTemplateService ''getQuickInfoAtPosition'' template [temOffset]]))
           | None \<Rightarrow> (None, [])))"

definition wrapGetQuickInfoAtPosition :: "serviceProxy \<Rightarrow> wrappers \<Rightarrow> wrappers" where
  "wrapGetQuickInfoAtPosition this ws =
     (case getQuickInfoAtPosition (templateService this) of
        None \<Rightarrow> ws
      | Some handler \<Rightarrow>
          ws\<lparr>wrapped_getQuickInfoAtPosition :=
               Some (getQuickInfoAtPositionWrapper this handler)\<rparr>)"

definition getDefinitionAtPositionWrapper ::
  "serviceProxy \<Rightarrow> (template \<Rightarrow> int \<Rightarrow> definitionInfo list option)
   \<Rightarrow> (unit \<Rightarrow> definitionInfo list option) \<Rightarrow> string \<Rightarrow> int
   \<Rightarrow> definitionInfo list option logged" where
  "getDefinitionAtPositionWrapper this handler callOriginal fileName gloOffset =
     (case getTemplateAt (templateProvider this) fileName gloOffset of
        None \<Rightarrow> (callOriginal (), [CallOriginal])
      | Some template \<Rightarrow>
          (let temOffset = globalOffsetToLocal template gloOffset;
               definitions = handler template temOffset
           in (definitions,
               [CallTemplateService ''getDefinitionAtPosition'' template [temOffset]])))"

definition wrapGetDefinitionAtPosition :: "serviceProxy \<Rightarrow> wrappers \<Rightarrow> wrappers" where
  "wrapGetDefinitionAtPosition this ws =
     (case getDefinitionAtPosition (templateService this) of
        None \<Rightarrow> ws
      | Some handler \<Rightarrow>
          ws\<lparr>wrapped_getDefinitionAtPosition :=
               Some (getDefinitionAtPositionWrapper this handler)\<rparr>)"

definition getDefinitionAndBoundSpanWrapper ::
  "serviceProxy \<Rightarrow> (template \<Rightarrow> int \<Rightarrow> definitionInfoAndBoundSpan option)
   \<Rightarrow> (unit \<Rightarrow> definitionInfoAndBoundSpan option) \<Rightarrow> string \<Rightarrow> int
   \<Rightarrow> definitionInfoAndBoundSpan option logged" where
  "getDefinitionAndBoundSpanWrapper this handler callOriginal fileName gloOffset =
     (case getTemplateAt (templateProvider this) fileName gloOffset of
        None \<Rightarrow> (callOriginal (), [CallOriginal])
      | Some template \<Rightarrow>
          (let temOffset = globalOffsetToLocal template gloOffset;
               definitionAndSpan = handler template temOffset
           in (definitionAndSpan,
               [CallTemplateService ''getDefinitionAndBoundSpan'' template [temOffset]])))"

definition wrapGetDefinitionAndBoundSpan :: "serviceProxy \<Rightarrow> wrappers \<Rightarrow> wrappers" where
  "wrapGetDefinitionAndBoundSpan this ws =
     (case getDefinitionAndBoundSpan (templateService this) of
        None \<Rightarrow> ws
      | Some handler \<Rightarrow>
          ws\<lparr>wrapped_getDefinitionAndBoundSpan :=
               Some (getDefinitionAndBoundSpanWrapper this handler)\<rparr>)"

definition getSignatureHelpItemsWrapper ::
  "serviceProxy \<Rightarrow> (template \<Rightarrow> int \<Rightarrow> options option \<Rightarrow> signatureHelpItems option)
   \<Rightarrow> (unit \<Rightarrow> signatureHelpItems option) \<Rightarrow> string \<Rightarrow> int \<Rightarrow> options option
   \<Rightarrow> signatureHelpItems option logged" where
  "getSignatureHelpItemsWrapper this handler callOriginal fileName gloOffset options =
     (case getTemplateAt (templateProvider this) fileName gloOffset of
        None \<Rightarrow> (callOriginal (), [CallOriginal])
      | Some template \<Rightarrow>
          (let temOffset = globalOffsetToLocal template gloOffset;
               items = handler template temOffset options
           in (map_option
                 (\<lambda>items. items\<lparr>sig_applicableSpan :=
                    translateTextSpan (sig_applicableSpan items) template\<rparr>)
                 items,
               [CallTemplateService ''getSignatureHelpItemsAtPosition'' template [temOffset]])))"

definition wrapGetSignatureHelpItemsAtPosition :: "serviceProxy \<Rightarrow> wrappers \<Rightarrow> wrappers" where
  "wrapGetSignatureHelpItemsAtPosition this ws =
     (case getSignatureHelpItemsAtPosition (templateService this) of
        None \<Rightarrow> ws
      | Some handler \<Rightarrow>
          ws\<lparr>wrapped_getSignatureHelpItems :=
               Some (getSignatureHelpItemsWrapper this handler)\<rparr>)"

definition findReferencesWrapper ::
  "serviceProxy \<Rightarrow> (template \<Rightarrow> int \<Rightarrow> referencedSymbol list option)
   \<Rightarrow> (unit \<Rightarrow> referencedSymbol list option) \<Rightarrow> string \<Rightarrow> int
   \<Rightarrow> referencedSymbol list option logged" where
  "findReferencesWrapper this handler callOriginal fileName gloOffset =
     (case getTemplateAt (templateProvider this) fileName gloOffset of
        None \<Rightarrow> (callOriginal (), [CallOriginal])
      | Some context \<Rightarrow>
          (let temOffset = globalOffsetToLocal context gloOffset;
               symbols = handler context temOffset
           in (map_option
                 (map (\<lambda>symbol. symbol\<lparr>sym_definition :=
                    (sym_definition symbol)\<lparr>def_textSpan :=
                       translateTextSpan (def_textSpan (sym_definition symbol)) context\<rparr>\<rparr>))
                 symbols,
               [CallTemplateService ''getReferencesAtPosition'' context [temOffset]])))"

definition wrapGetReferencesAtPosition :: "serviceProxy \<Rightarrow> wrappers \<Rightarrow> wrappers" where
  "wrapGetReferencesAtPosition this ws =
     (case getReferencesAtPosition (templateService this) of
        None \<Rightarrow> ws
      | Some handler \<Rightarrow>
          ws\<lparr>wrapped_findReferences := Some (findReferencesWrapper this handler)\<rparr>)"

definition getJsxClosingTagAtPositionWrapper ::
  "serviceProxy \<Rightarrow> (template \<Rightarrow> int \<Rightarrow> jsxClosingTagInfo option)
   \<Rightarrow> (unit \<Rightarrow> jsxClosingTagInfo option) \<Rightarrow> string \<Rightarrow> int
   \<Rightarrow> jsxClosingTagInfo option logged" where
  "getJsxClosingTagAtPositionWrapper this handler callOriginal fileName gloOffset =
     (case getTemplateAt (templateProvider this) fileName gloOffset of
        None \<Rightarrow> (callOriginal (), [CallOriginal])
      | Some context \<Rightarrow>
          (let temOffset = globalOffsetToLocal context gloOffset;
               info = handler context temOffset
           in (info,
               [CallTemplateService ''getJsxClosingTagAtPosition'' context [temOffset]])))"

definition wrapGetJsxClosingTagAtPosition :: "serviceProxy \<Rightarrow> wrappers \<Rightarrow> wrappers" where
  "wrapGetJsxClosingTagAtPosition this ws =
     (case getJsxClosingTagAtPosition (templateService this) of
        None \<Rightarrow> ws
      | Some handler \<Rightarrow>
          ws\<lparr>wrapped_getJsxClosingTagAtPosition :=
               Some (getJsxClosingTagAtPositionWrapper this handler)\<rparr>)"

subsection \<open>Merge over the whole document\<close>

text \<open>The loops over \<open>getAllTemplates(fileName)\<close> are folds whose state is the
  accumulator array and the log. In the syntactic wrapper the source pushes
  \<open>...diagnostics\<close>, the accumulator itself, and leaves \<open>subDiagnostics\<close> unused.\<close>

definition getSyntacticDiagnosticsWrapper ::
  "serviceProxy \<Rightarrow> (template \<Rightarrow> diagnostic list)
   \<Rightarrow> (unit \<Rightarrow> diagnostic list) \<Rightarrow> string \<Rightarrow> diagnostic list logged" where
  "getSyntacticDiagnosticsWrapper this handler callOriginal fileName =
     (let (diagnostics, log) =
        fold (\<lambda>template (diagnostics, log).
                (let subDiagnostics =
                       map (\<lambda>diagnostic. diagnostic\<lparr>diag_start :=
                              localOffsetToGlobal template (diag_start diagnostic)\<rparr>)
                         (handler template)
                 in (diagnostics @ diagnostics,
                     log @ [CallTemplateService ''getSyntacticDiagnostics'' template []])))
          (getAllTemplates (templateProvider this) fileName) ([], [])
      in (callOriginal () @ diagnostics, log @ [CallOriginal]))"

definition wrapGetSyntacticDiagnostics :: "serviceProxy \<Rightarrow> wrappers \<Rightarrow> wrappers" where
  "wrapGetSyntacticDiagnostics this ws =
     (case getSyntacticDiagnostics (templateService this) of
        None \<Rightarrow> ws
      | Some handler \<Rightarrow>
          ws\<lparr>wrapped_getSyntacticDiagnostics :=
               Some (getSyntacticDiagnosticsWrapper this handler)\<rparr>)"

definition getSemanticDiagnosticsWrapper ::
  "serviceProxy \<Rightarrow> (template \<Rightarrow> diagnostic list)
   \<Rightarrow> (unit \<Rightarrow> diagnostic list) \<Rightarrow> string \<Rightarrow> diagnostic list logged" where
  "getSemanticDiagnosticsWrapper this handler callOriginal fileName =
     (let (diagnostics, log) =
        fold (\<lambda>template (diagnostics, log).
                (let subDiagnostics =
                       map (\<lambda>diagnostic. diagnostic\<lparr>diag_start :=
                              localOffsetToGlobal template (diag_start diagnostic)\<rparr>)
                         (handler template)
                 in (diagnostics @ subDiagnostics,
                     log @ [CallTemplateService ''getSemanticDiagnostics'' template []])))
          (getAllTemplates (templateProvider this) fileName) ([], [])
      in (callOriginal () @ diagnostics, log @ [CallOriginal]))"

definition wrapGetSemanticDiagnostics :: "serviceProxy \<Rightarrow> wrappers \<Rightarrow> wrappers" where
  "wrapGetSemanticDiagnostics this ws =
     (case getSemanticDiagnostics (templateService this) of
        None \<Rightarrow> ws
      | Some handler \<Rightarrow>
          ws\<lparr>wrapped_getSemanticDiagnostics :=
               Some (getSemanticDiagnosticsWrapper this handler)\<rparr>)"

definition getOutliningSpansWrapper ::
  "serviceProxy \<Rightarrow> (template \<Rightarrow> outliningSpan list)
   \<Rightarrow> (unit \<Rightarrow> outliningSpan list) \<Rightarrow> string \<Rightarrow> outliningSpan list logged" where
  "getOutliningSpansWrapper this handler callOriginal fileName =
     (let (spans, log) =
        fold (\<lambda>context (spans, log).
                (spans @
                 map (\<lambda>outliningSpan. outliningSpan
                        \<lparr>outline_textSpan :=
                           translateTextSpan (outline_textSpan outliningSpan) context,
                         outline_hintSpan :=
                           translateTextSpan (outline_hintSpan outliningSpan) context\<rparr>)
                   (handler context),
                 log @ [CallTemplateService ''getOutliningSpans'' context []]))
          (getAllTemplates (templateProvider this) fileName) ([], [])
      in (callOriginal () @ spans, log @ [CallOriginal]))"

definition wrapGetOutliningSpans :: "serviceProxy \<Rightarrow> wrappers \<Rightarrow> wrappers" where
  "wrapGetOutliningSpans this ws =
     (case getOutliningSpans (templateService this) of
        None \<Rightarrow> ws
      | Some handler \<Rightarrow>
          ws\<lparr>wrapped_getOutliningSpans := Some (getOutliningSpansWrapper this handler)\<rparr>)"

subsection \<open>Merge over the templates that intersect a range\<close>

definition getFormattingEditsForRangeWrapper ::
  "serviceProxy \<Rightarrow> (template \<Rightarrow> int \<Rightarrow> int \<Rightarrow> options \<Rightarrow> textChange list)
   \<Rightarrow> (unit \<Rightarrow> textChange list) \<Rightarrow> string \<Rightarrow> int \<Rightarrow> int \<Rightarrow> options
   \<Rightarrow> textChange list logged" where
  "getFormattingEditsForRangeWrapper this handler callOriginal fileName gloStart gloEnd options =
     (let (changes, log) =
        fold (\<lambda>template (changes, log).
                if \<not> intersectWith template gloStart gloEnd then (changes, log)
                else
                  (let temStart = globalOffsetToLocal template gloStart;
                       temEnd = globalOffsetToLocal template gloEnd
                   in (changes @
                       map (\<lambda>change. change\<lparr>change_span :=
                              translateTextSpan (change_span change) template\<rparr>)
                         (handler template temStart temEnd options),
                       log @ [CallTemplateService ''getFormattingEditsForRange'' template
                                [temStart, temEnd]])))
          (getAllTemplates (templateProvider this) fileName) ([], [])
      in (callOriginal () @ changes, log @ [CallOriginal]))"

definition wrapGetFormattingEditsForRange :: "serviceProxy \<Rightarrow> wrappers \<Rightarrow> wrappers" where
  "wrapGetFormattingEditsForRange this ws =
     (case getFormattingEditsForRange (templateService this) of
        None \<Rightarrow> ws
      | Some handler \<Rightarrow>
          ws\<lparr>wrapped_getFormattingEditsForRange :=
               Some (getFormattingEditsForRangeWrapper this handler)\<rparr>)"

definition getCodeFixesAtPositionWrapper ::
  "serviceProxy
   \<Rightarrow> (template \<Rightarrow> int \<Rightarrow> int \<Rightarrow> int list \<Rightarrow> options \<Rightarrow> options \<Rightarrow> codeFixAction list)
   \<Rightarrow> (unit \<Rightarrow> codeFixAction list) \<Rightarrow> string \<Rightarrow> int \<Rightarrow> int \<Rightarrow> int list \<Rightarrow> options \<Rightarrow> options
   \<Rightarrow> codeFixAction list logged" where
  "getCodeFixesAtPositionWrapper this handler callOriginal fileName gloStart gloEnd errorCodes
       options preferences =
     (let (actions, log) =
        fold (\<lambda>template (actions, log).
                if \<not> intersectWith template gloStart gloEnd then (actions, log)
                else
                  (let temStart = globalOffsetToLocal template gloStart;
                       temEnd = globalOffsetToLocal template gloEnd
                   in (actions @
                       map (\<lambda>action. action\<lparr>fix_changes :=
                              map (\<lambda>change. change\<lparr>file_textChanges :=
                                     map (\<lambda>change. change\<lparr>change_span :=
                                            translateTextSpan (change_span change) template\<rparr>)
                                       (file_textChanges change)\<rparr>)
                                (fix_changes action)\<rparr>)
                         (handler template temStart temEnd errorCodes options preferences),
                       log @ [CallTemplateService ''getCodeFixesAtPosition'' template
                                [temStart, temEnd]])))
          (getAllTemplates (templateProvider this) fileName) ([], [])
      in (callOriginal () @ actions, log @ [CallOriginal]))"

definition wrapGetCodeFixesAtPosition :: "serviceProxy \<Rightarrow> wrappers \<Rightarrow> wrappers" where
  "wrapGetCodeFixesAtPosition this ws =
     (case getCodeFixesAtPosition (templateService this) of
        None \<Rightarrow> ws
      | Some handler \<Rightarrow>
          ws\<lparr>wrapped_getCodeFixesAtPosition :=
               Some (getCodeFixesAtPositionWrapper this handler)\<rparr>)"

subsection \<open>The supported code fixes of the \<open>ts\<close> module\<close>

text \<open>
  \<open>ts.getSupportedCodeFixes\<close> is a property of the shared \<open>ts\<close> module object; the
  constructor assigns a new function to it. The module is the state \<open>tsModule\<close>, and
  calling the function reads that state and leaves it as it is. \<open>String(x)\<close> of an
  integer is its decimal numeral.
\<close>

record tsModule =
  ts_getSupportedCodeFixes :: "unit \<Rightarrow> string list"

fun digits :: "nat \<Rightarrow> string" where
  "digits n =
     (if n < 10 then [''0123456789'' ! n]
      else digits (n div 10) @ [''0123456789'' ! (n mod 10)])"

definition String :: "int \<Rightarrow> string" where
  "String x = (if x < 0 then CHR ''-'' # digits (nat (- x)) else digits (nat x))"

definition wrapGetSupportedCodeFixes :: "serviceProxy \<Rightarrow> tsModule \<Rightarrow> tsModule" where
  "wrapGetSupportedCodeFixes this ts =
     (case getSupportedCodeFixes (templateService this) of
        None \<Rightarrow> ts
      | Some handler \<Rightarrow>
          (let callOriginal = ts_getSupportedCodeFixes ts
           in ts\<lparr>ts_getSupportedCodeFixes :=
                   (\<lambda>_. callOriginal () @ map (\<lambda>x. String x) (handler ()))\<rparr>))"

text \<open>A call of \<open>ts.getSupportedCodeFixes()\<close>: the list it returns and the module
  after the call.\<close>

definition callGetSupportedCodeFixes :: "tsModule \<Rightarrow> string list \<times> tsModule" where
  "callGetSupportedCodeFixes ts = (ts_getSupportedCodeFixes ts (), ts)"

text \<open>\<open>n\<close> calls in a row: the lists they return, in order, and the module after the
  last one.\<close>

fun callsGetSupportedCodeFixes :: "nat \<Rightarrow> tsModule \<Rightarrow> string list list \<times> tsModule" where
  "callsGetSupportedCodeFixes 0 ts = ([], ts)"
| "callsGetSupportedCodeFixes (Suc n) ts =
     (let (codes, ts') = callGetSupportedCodeFixes ts;
          (rest, ts'') = callsGetSupportedCodeFixes n ts'
      in (codes # rest, ts''))"

subsection \<open>The constructor and \<open>decorate\<close>\<close>

text \<open>\<open>this.context\<close>; the field is \<open>context'\<close>, \<open>context\<close> being a keyword.\<close>

record projectContext =
  service :: languageService

record tsLanguageServiceProxy = serviceProxy +
  context' :: projectContext
  wrappers :: wrappers

text \<open>The constructor runs the fourteen \<open>wrap...\<close> methods in the order of the
  source. Thirteen of them fill \<open>this.wrappers\<close>; \<open>wrapGetSupportedCodeFixes\<close>
  changes the \<open>ts\<close> module instead.\<close>

definition TSLanguageServiceProxy ::
  "projectContext \<Rightarrow> templateLanguageService \<Rightarrow> templateProvider \<Rightarrow> tsModule
   \<Rightarrow> tsLanguageServiceProxy \<times> tsModule" where
  "TSLanguageServiceProxy ctx router provider ts =
     (let this = \<lparr> templateService = router, templateProvider = provider \<rparr>;
          ws = noWrappers;
          ws = wrapGetCompletionsAtPosition this ws;
          ws = wrapGetCompletionEntryDetails this ws;
          ws = wrapGetQuickInfoAtPosition this ws;
          ws = wrapGetDefinitionAtPosition this ws;
          ws = wrapGetDefinitionAndBoundSpan this ws;
          ws = wrapGetSemanticDiagnostics this ws;
          ws = wrapGetSyntacticDiagnostics this ws;
          ws = wrapGetFormattingEditsForRange this ws;
          ws = wrapGetCodeFixesAtPosition this ws;
          ts = wrapGetSupportedCodeFixes this ts;
          ws = wrapGetSignatureHelpItemsAtPosition this ws;
          ws = wrapGetOutliningSpans this ws;
          ws = wrapGetReferencesAtPosition this ws;
          ws = wrapGetJsxClosingTagAtPosition this ws
      in (\<lparr> templateService = router, templateProvider = provider,
             context' = ctx, wrappers = ws \<rparr>, ts))"

text \<open>
  The object \<open>decorate\<close> returns: a \<open>Proxy\<close> over the raw language service whose
  \<open>get\<close> trap answers \<open>wrappedService.get(property) ?? target[property]\<close>. Calling an
  operation of it gives the operation's result and the log of the calls made; a call
  that reaches the raw service directly is the log \<open>[CallOriginal]\<close>.
\<close>

record decoratedService =
  proxy_getCompletionsAtPosition ::
    "string \<Rightarrow> int \<Rightarrow> options \<Rightarrow> completionInfo option logged"
  proxy_getCompletionEntryDetails ::
    "string \<Rightarrow> int \<Rightarrow> string \<Rightarrow> options \<Rightarrow> completionEntryDetails option logged"
  proxy_getQuickInfoAtPosition :: "string \<Rightarrow> int \<Rightarrow> quickInfo option logged"
  proxy_getDefinitionAtPosition :: "string \<Rightarrow> int \<Rightarrow> definitionInfo list option logged"
  proxy_getDefinitionAndBoundSpan ::
    "string \<Rightarrow> int \<Rightarrow> definitionInfoAndBoundSpan option logged"
  proxy_getSemanticDiagnostics :: "string \<Rightarrow> diagnostic list logged"
  proxy_getSyntacticDiagnostics :: "string \<Rightarrow> diagnostic list logged"
  proxy_getFormattingEditsForRange ::
    "string \<Rightarrow> int \<Rightarrow> int \<Rightarrow> options \<Rightarrow> textChange list logged"
  proxy_getCodeFixesAtPosition ::
    "string \<Rightarrow> int \<Rightarrow> int \<Rightarrow> int list \<Rightarrow> options \<Rightarrow> options \<Rightarrow> codeFixAction list logged"
  proxy_getSignatureHelpItems ::
    "string \<Rightarrow> int \<Rightarrow> options option \<Rightarrow> signatureHelpItems option logged"
  proxy_getOutliningSpans :: "string \<Rightarrow> outliningSpan list logged"
  proxy_findReferences :: "string \<Rightarrow> int \<Rightarrow> referencedSymbol list option logged"
  proxy_getJsxClosingTagAtPosition :: "string \<Rightarrow> int \<Rightarrow> jsxClosingTagInfo option logged"
  proxy_otherOperations :: "string \<Rightarrow> string list \<Rightarrow> string logged"

definition decorate :: "tsLanguageServiceProxy \<Rightarrow> decoratedService" where
  "decorate this =
     (let rawLanguageService = service (context' this);
          wrappedService = wrappers this
      in \<lparr> proxy_getCompletionsAtPosition = (\<lambda>fileName gloOffset options.
             case wrapped_getCompletionsAtPosition wrappedService of
               Some wrapper \<Rightarrow>
                 wrapper (\<lambda>_. raw_getCompletionsAtPosition rawLanguageService
                                 fileName gloOffset options)
                   fileName gloOffset options
             | None \<Rightarrow>
                 (raw_getCompletionsAtPosition rawLanguageService fileName gloOffset options,
                  [CallOriginal])),
           proxy_getCompletionEntryDetails = (\<lambda>fileName gloOffset name options.
             case wrapped_getCompletionEntryDetails wrappedService of
               Some wrapper \<Rightarrow>
                 wrapper (\<lambda>_. raw_getCompletionEntryDetails rawLanguageService
                                 fileName gloOffset name options)
                   fileName gloOffset name options
             | None \<Rightarrow>
                 (raw_getCompletionEntryDetails rawLanguageService
                    fileName gloOffset name options,
                  [CallOriginal])),
           proxy_getQuickInfoAtPosition = (\<lambda>fileName gloOffset.
             case wrapped_getQuickInfoAtPosition wrappedService of
               Some wrapper \<Rightarrow>
                 wrapper (\<lambda>_. raw_getQuickInfoAtPosition rawLanguageService fileName gloOffset)
                   fileName gloOffset
             | None \<Rightarrow>
                 (raw_getQuickInfoAtPosition rawLanguageService fileName gloOffset,
                  [CallOriginal])),
           proxy_getDefinitionAtPosition = (\<lambda>fileName gloOffset.
             case wrapped_getDefinitionAtPosition wrappedService of
               Some wrapper \<Rightarrow>
                 wrapper (\<lambda>_. raw_getDefinitionAtPosition rawLanguageService fileName gloOffset)
                   fileName gloOffset
             | None \<Rightarrow>
                 (raw_getDefinitionAtPosition rawLanguageService fileName gloOffset,
                  [CallOriginal])),
           proxy_getDefinitionAndBoundSpan = (\<lambda>fileName gloOffset.
             case wrapped_getDefinitionAndBoundSpan wrappedService of
               Some wrapper \<Rightarrow>
                 wrapper (\<lambda>_. raw_getDefinitionAndBoundSpan rawLanguageService
                                 fileName gloOffset)
                   fileName gloOffset
             | None \<Rightarrow>
                 (raw_getDefinitionAndBoundSpan rawLanguageService fileName gloOffset,
                  [CallOriginal])),
           proxy_getSemanticDiagnostics = (\<lambda>fileName.
             case wrapped_getSemanticDiagnostics wrappedService of
               Some wrapper \<Rightarrow>
                 wrapper (\<lambda>_. raw_getSemanticDiagnostics rawLanguageService fileName) fileName
             | None \<Rightarrow>
                 (raw_getSemanticDiagnostics rawLanguageService fileName, [CallOriginal])),
           proxy_getSyntacticDiagnostics = (\<lambda>fileName.
             case wrapped_getSyntacticDiagnostics wrappedService of
               Some wrapper \<Rightarrow>
                 wrapper (\<lambda>_. raw_getSyntacticDiagnostics rawLanguageService fileName) fileName
             | None \<Rightarrow>
                 (raw_getSyntacticDiagnostics rawLanguageService fileName, [CallOriginal])),
           proxy_getFormattingEditsForRange = (\<lambda>fileName gloStart gloEnd options.
             case wrapped_getFormattingEditsForRange wrappedService of
               Some wrapper \<Rightarrow>
                 wrapper (\<lambda>_. raw_getFormattingEditsForRange rawLanguageService
                                 fileName gloStart gloEnd options)
                   fileName gloStart gloEnd options
             | None \<Rightarrow>
                 (raw_getFormattingEditsForRange rawLanguageService
                    fileName gloStart gloEnd options,
                  [CallOriginal])),
           proxy_getCodeFixesAtPosition =
             (\<lambda>fileName gloStart gloEnd errorCodes options preferences.
             case wrapped_getCodeFixesAtPosition wrappedService of
               Some wrapper \<Rightarrow>
                 wrapper (\<lambda>_. raw_getCodeFixesAtPosition rawLanguageService
                                 fileName gloStart gloEnd errorCodes options preferences)
                   fileName gloStart gloEnd errorCodes options preferences
             | None \<Rightarrow>
                 (raw_getCodeFixesAtPosition rawLanguageService
                    fileName gloStart gloEnd errorCodes options preferences,
                  [CallOriginal])),
           proxy_getSignatureHelpItems = (\<lambda>fileName gloOffset options.
             case wrapped_getSignatureHelpItems wrappedService of
               Some wrapper \<Rightarrow>
                 wrapper (\<lambda>_. raw_getSignatureHelpItems rawLanguageService
                                 fileName gloOffset options)
                   fileName gloOffset options
             | None \<Rightarrow>
                 (raw_getSignatureHelpItems rawLanguageService fileName gloOffset options,
                  [CallOriginal])),
           proxy_getOutliningSpans = (\<lambda>fileName.
             case wrapped_getOutliningSpans wrappedService of
               Some wrapper \<Rightarrow>
                 wrapper (\<lambda>_. raw_getOutliningSpans rawLanguageService fileName) fileName
             | None \<Rightarrow>
                 (raw_getOutliningSpans rawLanguageService fileName, [CallOriginal])),
           proxy_findReferences = (\<lambda>fileName gloOffset.
             case wrapped_findReferences wrappedService of
               Some wrapper \<Rightarrow>
                 wrapper (\<lambda>_. raw_findReferences rawLanguageService fileName gloOffset)
                   fileName gloOffset
             | None \<Rightarrow>
                 (raw_findReferences rawLanguageService fileName gloOffset, [CallOriginal])),
           proxy_getJsxClosingTagAtPosition = (\<lambda>fileName gloOffset.
             case wrapped_getJsxClosingTagAtPosition wrappedService of
               Some wrapper \<Rightarrow>
                 wrapper (\<lambda>_. raw_getJsxClosingTagAtPosition rawLanguageService
                                 fileName gloOffset)
                   fileName gloOffset
             | None \<Rightarrow>
                 (raw_getJsxClosingTagAtPosition rawLanguageService fileName gloOffset,
                  [CallOriginal])),
           proxy_otherOperations = (\<lambda>property args.
             (raw_otherOperations rawLanguageService property args, [CallOriginal])) \<rparr>)"

section \<open>The completion service: \<open>makeCompletionInfo\<close>\<close>

text \<open>
  \<open>CompletionItem\<close> as declared in \<open>complete-data/types.ts\<close>; the optional fields
  are options. Of a \<open>TemplatePart\<close> the method reads \<open>start\<close> and \<open>end\<close>;
  the part and the location are otherwise only passed to \<open>getScriptElementKind\<close>, a
  function of \<open>./utils\<close> outside the source files and a parameter here.
\<close>

record completionItem =
  item_name :: string
  item_description :: string
  item_start :: "int option"
  item_end :: "int option"
  item_order :: "int option"
  item_kind :: "string option"

record templatePart =
  part_start :: int
  part_end :: int

datatype templatePartLocationType = Name | Modifier | AttrValue

record templatePartLocation =
  location_type :: templatePartLocationType
  location_start :: int

text \<open>The filter callback of \<open>makeCompletionInfo\<close>, run over the entries from left
  to right; \<open>names\<close> is the set it reads and extends.\<close>

fun filterRepetitive :: "string set \<Rightarrow> completionEntry list \<Rightarrow> completionEntry list" where
  "filterRepetitive names [] = []"
| "filterRepetitive names (item # rest) =
     (if entry_name item \<in> names then filterRepetitive names rest
      else item # filterRepetitive (insert (entry_name item) names) rest)"

text \<open>The callback of \<open>items.map\<close> in \<open>makeCompletionInfo\<close>.\<close>

definition makeEntry ::
  "(completionItem \<Rightarrow> templatePart \<Rightarrow> templatePartLocation \<Rightarrow> string)
   \<Rightarrow> templatePart \<Rightarrow> templatePartLocation \<Rightarrow> completionItem \<Rightarrow> completionEntry" where
  "makeEntry getScriptElementKind part location item =
     (let kind = getScriptElementKind item part location;
          start = (case item_start item of Some s \<Rightarrow> s | None \<Rightarrow> part_start part);
          end' = (case item_end item of Some e \<Rightarrow> e | None \<Rightarrow> part_end part);
          replacementSpan = \<lparr> span_start = start, span_length = end' - start \<rparr>
      in \<lparr> entry_name = item_name item,
           entry_kind = kind,
           entry_sortText = item_name item,
           entry_insertText = Some (item_name item),
           entry_replacementSpan = Some replacementSpan \<rparr>)"

definition makeCompletionInfo ::
  "(completionItem \<Rightarrow> templatePart \<Rightarrow> templatePartLocation \<Rightarrow> string)
   \<Rightarrow> completionItem list option \<Rightarrow> templatePart \<Rightarrow> templatePartLocation
   \<Rightarrow> completionInfo option" where
  "makeCompletionInfo getScriptElementKind items part location =
     (case items of
        None \<Rightarrow> None
      | Some items \<Rightarrow>
          (let names = {};
               entries = map (makeEntry getScriptElementKind part location) items;
               entries = filterRepetitive names entries
           in Some \<lparr> isGlobalCompletion = False,
                     isMemberCompletion = False,
                     isNewIdentifierLocation = False,
                     entries = entries \<rparr>))"

section \<open>Sample services\<close>

text \<open>
  Concrete services on which the statements below are evaluated: a template service
  that implements no method (single methods are added by record update), a host
  service, the document of the specification's example with templates at \<open>[7,16)\<close>
  and \<open>[43,52)\<close>, and handlers whose results depend on the local offsets they receive.
\<close>

definition noService :: templateLanguageService where
  "noService =
     \<lparr> getCompletionsAtPosition = None, getCompletionEntryDetails = None,
       getQuickInfoAtPosition = None, getDefinitionAtPosition = None,
       getDefinitionAndBoundSpan = None, getSemanticDiagnostics = None,
       getSyntacticDiagnostics = None, getFormattingEditsForRange = None,
       getCodeFixesAtPosition = None, getSupportedCodeFixes = None,
       getSignatureHelpItemsAtPosition = None, getOutliningSpans = None,
       getReferencesAtPosition = None, getJsxClosingTagAtPosition = None \<rparr>"

definition sampleTemplates :: "string \<Rightarrow> template list" where
  "sampleTemplates fileName =
     [\<lparr>globalStart = 7, globalEnd = 16\<rparr>, \<lparr>globalStart = 43, globalEnd = 52\<rparr>]"

definition sampleHost :: languageService where
  "sampleHost =
     \<lparr> raw_getCompletionsAtPosition = (\<lambda>fileName position options.
         Some \<lparr>isGlobalCompletion = True, isMemberCompletion = False,
               isNewIdentifierLocation = False,
               entries = [\<lparr>entry_name = ''host'', entry_kind = ''keyword'',
                           entry_sortText = ''0'', entry_insertText = None,
                           entry_replacementSpan = None\<rparr>]\<rparr>),
       raw_getCompletionEntryDetails = (\<lambda>fileName position name options. None),
       raw_getQuickInfoAtPosition = (\<lambda>fileName position.
         Some \<lparr>quick_kind = ''host'',
               quick_textSpan = Some \<lparr>span_start = position, span_length = 1\<rparr>,
               quick_displayParts = ''host''\<rparr>),
       raw_getDefinitionAtPosition = (\<lambda>fileName position. None),
       raw_getDefinitionAndBoundSpan = (\<lambda>fileName position. None),
       raw_getSemanticDiagnostics = (\<lambda>fileName.
         [\<lparr>diag_start = 0, diag_length = 1, diag_code = 2304, diag_messageText = ''host''\<rparr>]),
       raw_getSyntacticDiagnostics = (\<lambda>fileName.
         [\<lparr>diag_start = 0, diag_length = 1, diag_code = 1005, diag_messageText = ''host''\<rparr>]),
       raw_getFormattingEditsForRange = (\<lambda>fileName start end' options.
         [\<lparr>change_span = Some \<lparr>span_start = start, span_length = 0\<rparr>,
            change_newText = ''host''\<rparr>]),
       raw_getCodeFixesAtPosition = (\<lambda>fileName start end' errorCodes options preferences.
         []),
       raw_getSignatureHelpItems = (\<lambda>fileName position options. None),
       raw_getOutliningSpans = (\<lambda>fileName. []),
       raw_findReferences = (\<lambda>fileName position. Some []),
       raw_getJsxClosingTagAtPosition = (\<lambda>fileName position. None),
       raw_otherOperations = (\<lambda>property args. property) \<rparr>"

definition sampleTs :: tsModule where
  "sampleTs = \<lparr> ts_getSupportedCodeFixes = (\<lambda>_. [''1002'', ''2304'']) \<rparr>"

definition sampleCompletions :: "template \<Rightarrow> int \<Rightarrow> options \<Rightarrow> completionInfo option" where
  "sampleCompletions template temOffset options =
     (if temOffset = 0 then None
      else Some \<lparr>isGlobalCompletion = False, isMemberCompletion = False,
                 isNewIdentifierLocation = False,
                 entries = [\<lparr>entry_name = ''click'', entry_kind = ''property'',
                             entry_sortText = ''click'', entry_insertText = Some ''click'',
                             entry_replacementSpan =
                               Some \<lparr>span_start = temOffset - 1, span_length = 1\<rparr>\<rparr>,
                            \<lparr>entry_name = ''focus'', entry_kind = ''property'',
                             entry_sortText = ''focus'', entry_insertText = Some ''focus'',
                             entry_replacementSpan = None\<rparr>]\<rparr>)"

definition sampleQuickInfo :: "template \<Rightarrow> int \<Rightarrow> quickInfo option" where
  "sampleQuickInfo template temOffset =
     Some \<lparr>quick_kind = ''property'',
           quick_textSpan = Some \<lparr>span_start = temOffset, span_length = 2\<rparr>,
           quick_displayParts = ''template''\<rparr>"

definition sampleDiagnostics :: "template \<Rightarrow> diagnostic list" where
  "sampleDiagnostics template =
     [\<lparr>diag_start = 1, diag_length = 2, diag_code = 9001, diag_messageText = ''template''\<rparr>]"

definition sampleFormatting :: "template \<Rightarrow> int \<Rightarrow> int \<Rightarrow> options \<Rightarrow> textChange list" where
  "sampleFormatting template temStart temEnd options =
     [\<lparr>change_span = Some \<lparr>span_start = 2, span_length = 1\<rparr>, change_newText = ''x''\<rparr>]"

definition sampleCodeFixes ::
  "template \<Rightarrow> int \<Rightarrow> int \<Rightarrow> int list \<Rightarrow> options \<Rightarrow> options \<Rightarrow> codeFixAction list" where
  "sampleCodeFixes template temStart temEnd errorCodes options preferences =
     [\<lparr>fix_fixName = ''import'', fix_description = ''add import'',
        fix_changes =
          [\<lparr>file_fileName = ''a.ts'',
             file_textChanges =
               [\<lparr>change_span = Some \<lparr>span_start = 1, span_length = 0\<rparr>,
                  change_newText = ''a''\<rparr>,
                \<lparr>change_span = Some \<lparr>span_start = 4, span_length = 2\<rparr>,
                  change_newText = ''b''\<rparr>]\<rparr>]\<rparr>]"

definition sampleReferences :: "template \<Rightarrow> int \<Rightarrow> referencedSymbol list option" where
  "sampleReferences template temOffset =
     Some [\<lparr>sym_definition =
              \<lparr>def_fileName = ''a.ts'',
               def_textSpan = Some \<lparr>span_start = temOffset, span_length = 3\<rparr>,
               def_name = ''Button''\<rparr>,
            sym_references = []\<rparr>]"

section \<open>Span translation writes the start only\<close>

text \<open>
  Claim C8. \<open>translateTextSpan\<close> rewrites only the start of a span: called with a span,
  the span's start becomes \<open>localOffsetToGlobal(start)\<close> while its length and every
  other field of the span object stay as they were (the span is any extension of
  \<open>textSpan\<close>); called with \<open>undefined\<close> it writes nothing, and the absent span stays
  absent. The method receives the span alone: no other field of the result that contains
  the span is within its reach.
\<close>

theorem translateTextSpan_start_only:
  "translateTextSpan None template = None \<and>
   translateTextSpan (Some s) template
     = Some (s\<lparr>span_start := localOffsetToGlobal template (span_start s)\<rparr>) \<and>
   map_option span_start (translateTextSpan (Some s) template)
     = Some (localOffsetToGlobal template (span_start s)) \<and>
   map_option span_length (translateTextSpan (Some s) template) = Some (span_length s) \<and>
   map_option textSpan.more (translateTextSpan (Some s) template) = Some (textSpan.more s)"
  by (simp add: translateTextSpan_def)

section \<open>Completion entries have distinct names\<close>

lemma filterRepetitive_names:
  "entry_name ` set (filterRepetitive names es) = entry_name ` set es - names"
  by (induction es arbitrary: names) auto

lemma filterRepetitive_fresh:
  "e \<in> set (filterRepetitive names es) \<Longrightarrow> entry_name e \<notin> names"
  using filterRepetitive_names [of names es] by blast

lemma filterRepetitive_distinct: "distinct (map entry_name (filterRepetitive names es))"
proof (induction es arbitrary: names)
  case Nil
  show ?case by simp
next
  case (Cons a es)
  have "entry_name a \<notin> entry_name ` set (filterRepetitive (insert (entry_name a) names) es)"
    using filterRepetitive_fresh by fastforce
  with Cons show ?case by simp
qed

lemma filterRepetitive_subseq: "subseq (filterRepetitive names es) es"
  by (induction es arbitrary: names) auto

lemma filterRepetitive_first:
  "e \<in> set (filterRepetitive names es) \<Longrightarrow>
     find (\<lambda>x. entry_name x = entry_name e) es = Some e"
proof (induction es arbitrary: names)
  case Nil
  then show ?case by simp
next
  case (Cons a es)
  show ?case
  proof (cases "entry_name a \<in> names")
    case True
    with Cons.prems have in_rest: "e \<in> set (filterRepetitive names es)" by simp
    then have "entry_name e \<notin> names" by (rule filterRepetitive_fresh)
    with True have "entry_name a \<noteq> entry_name e" by auto
    with Cons.IH [OF in_rest] show ?thesis by simp
  next
    case False
    with Cons.prems
    consider "e = a" | "e \<in> set (filterRepetitive (insert (entry_name a) names) es)"
      by auto
    then show ?thesis
    proof cases
      case 1
      then show ?thesis by simp
    next
      case 2
      then have "entry_name e \<noteq> entry_name a"
        using filterRepetitive_fresh by fastforce
      with Cons.IH [OF 2] show ?thesis by simp
    qed
  qed
qed

lemma makeEntry_name [simp]: "entry_name (makeEntry k part location item) = item_name item"
  by (simp add: makeEntry_def Let_def)

lemma makeEntry_texts:
  "entry_sortText (makeEntry k part location item) = item_name item \<and>
   entry_insertText (makeEntry k part location item) = Some (item_name item)"
  by (simp add: makeEntry_def Let_def)

lemma find_map_entries:
  "find (\<lambda>x. entry_name x = n) (map (makeEntry k part location) items)
     = map_option (makeEntry k part location) (find (\<lambda>item. item_name item = n) items)"
  by (induction items) simp_all

text \<open>
  Claim C10. Every completion result that \<open>makeCompletionInfo\<close> builds (every result of
  the completion service is built by it) has pairwise distinct entry names. The names
  are those of the collected items; the entries stay in the order of the items; and each
  kept entry is the entry of the first item bearing its name, with \<open>sortText\<close> and
  \<open>insertText\<close> equal to the name.
\<close>

theorem makeCompletionInfo_distinct_names:
  "\<exists>info. makeCompletionInfo kindOf (Some items) part location = Some info \<and>
     distinct (map entry_name (entries info)) \<and>
     set (map entry_name (entries info)) = set (map item_name items) \<and>
     subseq (entries info) (map (makeEntry kindOf part location) items) \<and>
     (\<forall>e \<in> set (entries info).
        entry_sortText e = entry_name e \<and>
        entry_insertText e = Some (entry_name e) \<and>
        map_option (makeEntry kindOf part location)
          (find (\<lambda>item. item_name item = entry_name e) items) = Some e)"
proof -
  let ?made = "map (makeEntry kindOf part location) items"
  let ?kept = "filterRepetitive {} ?made"
  have result: "makeCompletionInfo kindOf (Some items) part location =
      Some \<lparr> isGlobalCompletion = False, isMemberCompletion = False,
             isNewIdentifierLocation = False, entries = ?kept \<rparr>"
    by (simp add: makeCompletionInfo_def)
  have names: "set (map entry_name ?kept) = set (map item_name items)"
    using filterRepetitive_names [of "{}" ?made] by (simp add: image_image)
  have each: "entry_sortText e = entry_name e \<and> entry_insertText e = Some (entry_name e) \<and>
      map_option (makeEntry kindOf part location)
        (find (\<lambda>item. item_name item = entry_name e) items) = Some e"
    if kept: "e \<in> set ?kept" for e
  proof -
    have "find (\<lambda>x. entry_name x = entry_name e) ?made = Some e"
      using kept by (rule filterRepetitive_first)
    then have first: "map_option (makeEntry kindOf part location)
        (find (\<lambda>item. item_name item = entry_name e) items) = Some e"
      by (simp add: find_map_entries)
    then obtain item where "e = makeEntry kindOf part location item" by auto
    with first show ?thesis by (simp add: makeEntry_texts)
  qed
  show ?thesis
    using result names each filterRepetitive_distinct [of "{}" ?made]
      filterRepetitive_subseq [of "{}" ?made]
    by simp
qed

theorem makeCompletionInfo_distinct_names_witness:
  "\<exists>info.
     makeCompletionInfo (\<lambda>item part location. ''property'')
       (Some [\<lparr>item_name = ''click'', item_description = ''first'', item_start = None,
                item_end = None, item_order = None, item_kind = None\<rparr>,
              \<lparr>item_name = ''focus'', item_description = ''other'', item_start = Some 2,
                item_end = None, item_order = None, item_kind = None\<rparr>,
              \<lparr>item_name = ''click'', item_description = ''second'', item_start = Some 3,
                item_end = Some 9, item_order = None, item_kind = None\<rparr>])
       \<lparr>part_start = 1, part_end = 4\<rparr>
       \<lparr>location_type = Name, location_start = 1\<rparr> = Some info \<and>
     entries info =
       [\<lparr>entry_name = ''click'', entry_kind = ''property'', entry_sortText = ''click'',
          entry_insertText = Some ''click'',
          entry_replacementSpan = Some \<lparr>span_start = 1, span_length = 3\<rparr>\<rparr>,
        \<lparr>entry_name = ''focus'', entry_kind = ''property'', entry_sortText = ''focus'',
          entry_insertText = Some ''focus'',
          entry_replacementSpan = Some \<lparr>span_start = 2, span_length = 2\<rparr>\<rparr>] \<and>
     distinct (map entry_name (entries info))"
  using makeCompletionInfo_distinct_names
    [of "\<lambda>item part location. ''property''"
        "[\<lparr>item_name = ''click'', item_description = ''first'', item_start = None,
            item_end = None, item_order = None, item_kind = None\<rparr>,
          \<lparr>item_name = ''focus'', item_description = ''other'', item_start = Some 2,
            item_end = None, item_order = None, item_kind = None\<rparr>,
          \<lparr>item_name = ''click'', item_description = ''second'', item_start = Some 3,
            item_end = Some 9, item_order = None, item_kind = None\<rparr>]"
        "\<lparr>part_start = 1, part_end = 4\<rparr>"
        "\<lparr>location_type = Name, location_start = 1\<rparr>"]
  by (simp add: makeCompletionInfo_def makeEntry_def)

section \<open>The constructor installs a wrapper per implemented method\<close>

declare digits.simps [simp del]

lemma wrapGetCompletionsAtPosition_update:
  "wrapGetCompletionsAtPosition this ws =
     wrapped_getCompletionsAtPosition_update
       (\<lambda>old. case getCompletionsAtPosition (templateService this) of
                None \<Rightarrow> old
              | Some handler \<Rightarrow> Some (getCompletionsAtPositionWrapper this))
       ws"
  by (simp add: wrapGetCompletionsAtPosition_def split: option.split)

lemma wrapGetCompletionEntryDetails_update:
  "wrapGetCompletionEntryDetails this ws =
     wrapped_getCompletionEntryDetails_update
       (\<lambda>old. case getCompletionEntryDetails (templateService this) of
                None \<Rightarrow> old
              | Some handler \<Rightarrow> Some (getCompletionEntryDetailsWrapper this))
       ws"
  by (simp add: wrapGetCompletionEntryDetails_def split: option.split)

lemma wrapGetQuickInfoAtPosition_update:
  "wrapGetQuickInfoAtPosition this ws =
     wrapped_getQuickInfoAtPosition_update
       (\<lambda>old. case getQuickInfoAtPosition (templateService this) of
                None \<Rightarrow> old
              | Some handler \<Rightarrow> Some (getQuickInfoAtPositionWrapper this handler))
       ws"
  by (simp add: wrapGetQuickInfoAtPosition_def split: option.split)

lemma wrapGetDefinitionAtPosition_update:
  "wrapGetDefinitionAtPosition this ws =
     wrapped_getDefinitionAtPosition_update
       (\<lambda>old. case getDefinitionAtPosition (templateService this) of
                None \<Rightarrow> old
              | Some handler \<Rightarrow> Some (getDefinitionAtPositionWrapper this handler))
       ws"
  by (simp add: wrapGetDefinitionAtPosition_def split: option.split)

lemma wrapGetDefinitionAndBoundSpan_update:
  "wrapGetDefinitionAndBoundSpan this ws =
     wrapped_getDefinitionAndBoundSpan_update
       (\<lambda>old. case getDefinitionAndBoundSpan (templateService this) of
                None \<Rightarrow> old
              | Some handler \<Rightarrow> Some (getDefinitionAndBoundSpanWrapper this handler))
       ws"
  by (simp add: wrapGetDefinitionAndBoundSpan_def split: option.split)

lemma wrapGetSemanticDiagnostics_update:
  "wrapGetSemanticDiagnostics this ws =
     wrapped_getSemanticDiagnostics_update
       (\<lambda>old. case getSemanticDiagnostics (templateService this) of
                None \<Rightarrow> old
              | Some handler \<Rightarrow> Some (getSemanticDiagnosticsWrapper this handler))
       ws"
  by (simp add: wrapGetSemanticDiagnostics_def split: option.split)

lemma wrapGetSyntacticDiagnostics_update:
  "wrapGetSyntacticDiagnostics this ws =
     wrapped_getSyntacticDiagnostics_update
       (\<lambda>old. case getSyntacticDiagnostics (templateService this) of
                None \<Rightarrow> old
              | Some handler \<Rightarrow> Some (getSyntacticDiagnosticsWrapper this handler))
       ws"
  by (simp add: wrapGetSyntacticDiagnostics_def split: option.split)

lemma wrapGetFormattingEditsForRange_update:
  "wrapGetFormattingEditsForRange this ws =
     wrapped_getFormattingEditsForRange_update
       (\<lambda>old. case getFormattingEditsForRange (templateService this) of
                None \<Rightarrow> old
              | Some handler \<Rightarrow> Some (getFormattingEditsForRangeWrapper this handler))
       ws"
  by (simp add: wrapGetFormattingEditsForRange_def split: option.split)

lemma wrapGetCodeFixesAtPosition_update:
  "wrapGetCodeFixesAtPosition this ws =
     wrapped_getCodeFixesAtPosition_update
       (\<lambda>old. case getCodeFixesAtPosition (templateService this) of
                None \<Rightarrow> old
              | Some handler \<Rightarrow> Some (getCodeFixesAtPositionWrapper this handler))
       ws"
  by (simp add: wrapGetCodeFixesAtPosition_def split: option.split)

lemma wrapGetSignatureHelpItemsAtPosition_update:
  "wrapGetSignatureHelpItemsAtPosition this ws =
     wrapped_getSignatureHelpItems_update
       (\<lambda>old. case getSignatureHelpItemsAtPosition (templateService this) of
                None \<Rightarrow> old
              | Some handler \<Rightarrow> Some (getSignatureHelpItemsWrapper this handler))
       ws"
  by (simp add: wrapGetSignatureHelpItemsAtPosition_def split: option.split)

lemma wrapGetOutliningSpans_update:
  "wrapGetOutliningSpans this ws =
     wrapped_getOutliningSpans_update
       (\<lambda>old. case getOutliningSpans (templateService this) of
                None \<Rightarrow> old
              | Some handler \<Rightarrow> Some (getOutliningSpansWrapper this handler))
       ws"
  by (simp add: wrapGetOutliningSpans_def split: option.split)

lemma wrapGetReferencesAtPosition_update:
  "wrapGetReferencesAtPosition this ws =
     wrapped_findReferences_update
       (\<lambda>old. case getReferencesAtPosition (templateService this) of
                None \<Rightarrow> old
              | Some handler \<Rightarrow> Some (findReferencesWrapper this handler))
       ws"
  by (simp add: wrapGetReferencesAtPosition_def split: option.split)

lemma wrapGetJsxClosingTagAtPosition_update:
  "wrapGetJsxClosingTagAtPosition this ws =
     wrapped_getJsxClosingTagAtPosition_update
       (\<lambda>old. case getJsxClosingTagAtPosition (templateService this) of
                None \<Rightarrow> old
              | Some handler \<Rightarrow> Some (getJsxClosingTagAtPositionWrapper this handler))
       ws"
  by (simp add: wrapGetJsxClosingTagAtPosition_def split: option.split)

lemmas wrap_updates =
  wrapGetCompletionsAtPosition_update
  wrapGetCompletionEntryDetails_update
  wrapGetQuickInfoAtPosition_update
  wrapGetDefinitionAtPosition_update
  wrapGetDefinitionAndBoundSpan_update
  wrapGetSemanticDiagnostics_update
  wrapGetSyntacticDiagnostics_update
  wrapGetFormattingEditsForRange_update
  wrapGetCodeFixesAtPosition_update
  wrapGetSignatureHelpItemsAtPosition_update
  wrapGetOutliningSpans_update
  wrapGetReferencesAtPosition_update
  wrapGetJsxClosingTagAtPosition_update

lemma constructed_wrappers:
  "wrappers (fst (TSLanguageServiceProxy ctx router provider ts)) =
     wrapGetJsxClosingTagAtPosition \<lparr>templateService = router, templateProvider = provider\<rparr>
      (wrapGetReferencesAtPosition \<lparr>templateService = router, templateProvider = provider\<rparr>
      (wrapGetOutliningSpans \<lparr>templateService = router, templateProvider = provider\<rparr>
      (wrapGetSignatureHelpItemsAtPosition \<lparr>templateService = router, templateProvider = provider\<rparr>
      (wrapGetCodeFixesAtPosition \<lparr>templateService = router, templateProvider = provider\<rparr>
      (wrapGetFormattingEditsForRange \<lparr>templateService = router, templateProvider = provider\<rparr>
      (wrapGetSyntacticDiagnostics \<lparr>templateService = router, templateProvider = provider\<rparr>
      (wrapGetSemanticDiagnostics \<lparr>templateService = router, templateProvider = provider\<rparr>
      (wrapGetDefinitionAndBoundSpan \<lparr>templateService = router, templateProvider = provider\<rparr>
      (wrapGetDefinitionAtPosition \<lparr>templateService = router, templateProvider = provider\<rparr>
      (wrapGetQuickInfoAtPosition \<lparr>templateService = router, templateProvider = provider\<rparr>
      (wrapGetCompletionEntryDetails \<lparr>templateService = router, templateProvider = provider\<rparr>
      (wrapGetCompletionsAtPosition \<lparr>templateService = router, templateProvider = provider\<rparr>
         noWrappers))))))))))))"
  unfolding TSLanguageServiceProxy_def Let_def by simp

lemma installed_getCompletionsAtPosition:
  "wrapped_getCompletionsAtPosition (wrappers (fst (TSLanguageServiceProxy ctx router provider ts))) =
     (case getCompletionsAtPosition router of
        None \<Rightarrow> None
      | Some handler \<Rightarrow> Some (getCompletionsAtPositionWrapper \<lparr>templateService = router, templateProvider = provider\<rparr>))"
  unfolding constructed_wrappers wrap_updates by (simp add: noWrappers_def)

lemma installed_getCompletionEntryDetails:
  "wrapped_getCompletionEntryDetails (wrappers (fst (TSLanguageServiceProxy ctx router provider ts))) =
     (case getCompletionEntryDetails router of
        None \<Rightarrow> None
      | Some handler \<Rightarrow> Some (getCompletionEntryDetailsWrapper \<lparr>templateService = router, templateProvider = provider\<rparr>))"
  unfolding constructed_wrappers wrap_updates by (simp add: noWrappers_def)

lemma installed_getQuickInfoAtPosition:
  "wrapped_getQuickInfoAtPosition (wrappers (fst (TSLanguageServiceProxy ctx router provider ts))) =
     (case getQuickInfoAtPosition router of
        None \<Rightarrow> None
      | Some handler \<Rightarrow> Some (getQuickInfoAtPositionWrapper \<lparr>templateService = router, templateProvider = provider\<rparr> handler))"
  unfolding constructed_wrappers wrap_updates by (simp add: noWrappers_def)

lemma installed_getDefinitionAtPosition:
  "wrapped_getDefinitionAtPosition (wrappers (fst (TSLanguageServiceProxy ctx router provider ts))) =
     (case getDefinitionAtPosition router of
        None \<Rightarrow> None
      | Some handler \<Rightarrow> Some (getDefinitionAtPositionWrapper \<lparr>templateService = router, templateProvider = provider\<rparr> handler))"
  unfolding constructed_wrappers wrap_updates by (simp add: noWrappers_def)

lemma installed_getDefinitionAndBoundSpan:
  "wrapped_getDefinitionAndBoundSpan (wrappers (fst (TSLanguageServiceProxy ctx router provider ts))) =
     (case getDefinitionAndBoundSpan router of
        None \<Rightarrow> None
      | Some handler \<Rightarrow> Some (getDefinitionAndBoundSpanWrapper \<lparr>templateService = router, templateProvider = provider\<rparr> handler))"
  unfolding constructed_wrappers wrap_updates by (simp add: noWrappers_def)

lemma installed_getSemanticDiagnostics:
  "wrapped_getSemanticDiagnostics (wrappers (fst (TSLanguageServiceProxy ctx router provider ts))) =
     (case getSemanticDiagnostics router of
        None \<Rightarrow> None
      | Some handler \<Rightarrow> Some (getSemanticDiagnosticsWrapper \<lparr>templateService = router, templateProvider = provider\<rparr> handler))"
  unfolding constructed_wrappers wrap_updates by (simp add: noWrappers_def)

lemma installed_getSyntacticDiagnostics:
  "wrapped_getSyntacticDiagnostics (wrappers (fst (TSLanguageServiceProxy ctx router provider ts))) =
     (case getSyntacticDiagnostics router of
        None \<Rightarrow> None
      | Some handler \<Rightarrow> Some (getSyntacticDiagnosticsWrapper \<lparr>templateService = router, templateProvider = provider\<rparr> handler))"
  unfolding constructed_wrappers wrap_updates by (simp add: noWrappers_def)

lemma installed_getFormattingEditsForRange:
  "wrapped_getFormattingEditsForRange (wrappers (fst (TSLanguageServiceProxy ctx router provider ts))) =
     (case getFormattingEditsForRange router of
        None \<Rightarrow> None
      | Some handler \<Rightarrow> Some (getFormattingEditsForRangeWrapper \<lparr>templateService = router, templateProvider = provider\<rparr> handler))"
  unfolding constructed_wrappers wrap_updates by (simp add: noWrappers_def)

lemma installed_getCodeFixesAtPosition:
  "wrapped_getCodeFixesAtPosition (wrappers (fst (TSLanguageServiceProxy ctx router provider ts))) =
     (case getCodeFixesAtPosition router of
        None \<Rightarrow> None
      | Some handler \<Rightarrow> Some (getCodeFixesAtPositionWrapper \<lparr>templateService = router, templateProvider = provider\<rparr> handler))"
  unfolding constructed_wrappers wrap_updates by (simp add: noWrappers_def)

lemma installed_getSignatureHelpItems:
  "wrapped_getSignatureHelpItems (wrappers (fst (TSLanguageServiceProxy ctx router provider ts))) =
     (case getSignatureHelpItemsAtPosition router of
        None \<Rightarrow> None
      | Some handler \<Rightarrow> Some (getSignatureHelpItemsWrapper \<lparr>templateService = router, templateProvider = provider\<rparr> handler))"
  unfolding constructed_wrappers wrap_updates by (simp add: noWrappers_def)

lemma installed_getOutliningSpans:
  "wrapped_getOutliningSpans (wrappers (fst (TSLanguageServiceProxy ctx router provider ts))) =
     (case getOutliningSpans router of
        None \<Rightarrow> None
      | Some handler \<Rightarrow> Some (getOutliningSpansWrapper \<lparr>templateService = router, templateProvider = provider\<rparr> handler))"
  unfolding constructed_wrappers wrap_updates by (simp add: noWrappers_def)

lemma installed_findReferences:
  "wrapped_findReferences (wrappers (fst (TSLanguageServiceProxy ctx router provider ts))) =
     (case getReferencesAtPosition router of
        None \<Rightarrow> None
      | Some handler \<Rightarrow> Some (findReferencesWrapper \<lparr>templateService = router, templateProvider = provider\<rparr> handler))"
  unfolding constructed_wrappers wrap_updates by (simp add: noWrappers_def)

lemma installed_getJsxClosingTagAtPosition:
  "wrapped_getJsxClosingTagAtPosition (wrappers (fst (TSLanguageServiceProxy ctx router provider ts))) =
     (case getJsxClosingTagAtPosition router of
        None \<Rightarrow> None
      | Some handler \<Rightarrow> Some (getJsxClosingTagAtPositionWrapper \<lparr>templateService = router, templateProvider = provider\<rparr> handler))"
  unfolding constructed_wrappers wrap_updates by (simp add: noWrappers_def)

section \<open>The operations of the decorated service\<close>

lemma decorate_getCompletionsAtPosition:
  "proxy_getCompletionsAtPosition (decorate this) =
     (case wrapped_getCompletionsAtPosition (wrappers this) of
        Some wrapper \<Rightarrow>
          (\<lambda>fileName gloOffset options.
             wrapper (\<lambda>_. raw_getCompletionsAtPosition (service (context' this)) fileName gloOffset options) fileName gloOffset options)
      | None \<Rightarrow>
          (\<lambda>fileName gloOffset options. (raw_getCompletionsAtPosition (service (context' this)) fileName gloOffset options, [CallOriginal])))"
  by (cases "wrapped_getCompletionsAtPosition (wrappers this)") (simp_all add: decorate_def Let_def)

lemma decorate_getCompletionEntryDetails:
  "proxy_getCompletionEntryDetails (decorate this) =
     (case wrapped_getCompletionEntryDetails (wrappers this) of
        Some wrapper \<Rightarrow>
          (\<lambda>fileName gloOffset name options.
             wrapper (\<lambda>_. raw_getCompletionEntryDetails (service (context' this)) fileName gloOffset name options) fileName gloOffset name options)
      | None \<Rightarrow>
          (\<lambda>fileName gloOffset name options. (raw_getCompletionEntryDetails (service (context' this)) fileName gloOffset name options, [CallOriginal])))"
  by (cases "wrapped_getCompletionEntryDetails (wrappers this)") (simp_all add: decorate_def Let_def)

lemma decorate_getQuickInfoAtPosition:
  "proxy_getQuickInfoAtPosition (decorate this) =
     (case wrapped_getQuickInfoAtPosition (wrappers this) of
        Some wrapper \<Rightarrow>
          (\<lambda>fileName gloOffset.
             wrapper (\<lambda>_. raw_getQuickInfoAtPosition (service (context' this)) fileName gloOffset) fileName gloOffset)
      | None \<Rightarrow>
          (\<lambda>fileName gloOffset. (raw_getQuickInfoAtPosition (service (context' this)) fileName gloOffset, [CallOriginal])))"
  by (cases "wrapped_getQuickInfoAtPosition (wrappers this)") (simp_all add: decorate_def Let_def)

lemma decorate_getDefinitionAtPosition:
  "proxy_getDefinitionAtPosition (decorate this) =
     (case wrapped_getDefinitionAtPosition (wrappers this) of
        Some wrapper \<Rightarrow>
          (\<lambda>fileName gloOffset.
             wrapper (\<lambda>_. raw_getDefinitionAtPosition (service (context' this)) fileName gloOffset) fileName gloOffset)
      | None \<Rightarrow>
          (\<lambda>fileName gloOffset. (raw_getDefinitionAtPosition (service (context' this)) fileName gloOffset, [CallOriginal])))"
  by (cases "wrapped_getDefinitionAtPosition (wrappers this)") (simp_all add: decorate_def Let_def)

lemma decorate_getDefinitionAndBoundSpan:
  "proxy_getDefinitionAndBoundSpan (decorate this) =
     (case wrapped_getDefinitionAndBoundSpan (wrappers this) of
        Some wrapper \<Rightarrow>
          (\<lambda>fileName gloOffset.
             wrapper (\<lambda>_. raw_getDefinitionAndBoundSpan (service (context' this)) fileName gloOffset) fileName gloOffset)
      | None \<Rightarrow>
          (\<lambda>fileName gloOffset. (raw_getDefinitionAndBoundSpan (service (context' this)) fileName gloOffset, [CallOriginal])))"
  by (cases "wrapped_getDefinitionAndBoundSpan (wrappers this)") (simp_all add: decorate_def Let_def)

lemma decorate_getSemanticDiagnostics:
  "proxy_getSemanticDiagnostics (decorate this) =
     (case wrapped_getSemanticDiagnostics (wrappers this) of
        Some wrapper \<Rightarrow>
          (\<lambda>fileName.
             wrapper (\<lambda>_. raw_getSemanticDiagnostics (service (context' this)) fileName) fileName)
      | None \<Rightarrow>
          (\<lambda>fileName. (raw_getSemanticDiagnostics (service (context' this)) fileName, [CallOriginal])))"
  by (cases "wrapped_getSemanticDiagnostics (wrappers this)") (simp_all add: decorate_def Let_def)

lemma decorate_getSyntacticDiagnostics:
  "proxy_getSyntacticDiagnostics (decorate this) =
     (case wrapped_getSyntacticDiagnostics (wrappers this) of
        Some wrapper \<Rightarrow>
          (\<lambda>fileName.
             wrapper (\<lambda>_. raw_getSyntacticDiagnostics (service (context' this)) fileName) fileName)
      | None \<Rightarrow>
          (\<lambda>fileName. (raw_getSyntacticDiagnostics (service (context' this)) fileName, [CallOriginal])))"
  by (cases "wrapped_getSyntacticDiagnostics (wrappers this)") (simp_all add: decorate_def Let_def)

lemma decorate_getFormattingEditsForRange:
  "proxy_getFormattingEditsForRange (decorate this) =
     (case wrapped_getFormattingEditsForRange (wrappers this) of
        Some wrapper \<Rightarrow>
          (\<lambda>fileName gloStart gloEnd options.
             wrapper (\<lambda>_. raw_getFormattingEditsForRange (service (context' this)) fileName gloStart gloEnd options) fileName gloStart gloEnd options)
      | None \<Rightarrow>
          (\<lambda>fileName gloStart gloEnd options. (raw_getFormattingEditsForRange (service (context' this)) fileName gloStart gloEnd options, [CallOriginal])))"
  by (cases "wrapped_getFormattingEditsForRange (wrappers this)") (simp_all add: decorate_def Let_def)

lemma decorate_getCodeFixesAtPosition:
  "proxy_getCodeFixesAtPosition (decorate this) =
     (case wrapped_getCodeFixesAtPosition (wrappers this) of
        Some wrapper \<Rightarrow>
          (\<lambda>fileName gloStart gloEnd errorCodes options preferences.
             wrapper (\<lambda>_. raw_getCodeFixesAtPosition (service (context' this)) fileName gloStart gloEnd errorCodes options preferences) fileName gloStart gloEnd errorCodes options preferences)
      | None \<Rightarrow>
          (\<lambda>fileName gloStart gloEnd errorCodes options preferences. (raw_getCodeFixesAtPosition (service (context' this)) fileName gloStart gloEnd errorCodes options preferences, [CallOriginal])))"
  by (cases "wrapped_getCodeFixesAtPosition (wrappers this)") (simp_all add: decorate_def Let_def)

lemma decorate_getSignatureHelpItems:
  "proxy_getSignatureHelpItems (decorate this) =
     (case wrapped_getSignatureHelpItems (wrappers this) of
        Some wrapper \<Rightarrow>
          (\<lambda>fileName gloOffset options.
             wrapper (\<lambda>_. raw_getSignatureHelpItems (service (context' this)) fileName gloOffset options) fileName gloOffset options)
      | None \<Rightarrow>
          (\<lambda>fileName gloOffset options. (raw_getSignatureHelpItems (service (context' this)) fileName gloOffset options, [CallOriginal])))"
  by (cases "wrapped_getSignatureHelpItems (wrappers this)") (simp_all add: decorate_def Let_def)

lemma decorate_getOutliningSpans:
  "proxy_getOutliningSpans (decorate this) =
     (case wrapped_getOutliningSpans (wrappers this) of
        Some wrapper \<Rightarrow>
          (\<lambda>fileName.
             wrapper (\<lambda>_. raw_getOutliningSpans (service (context' this)) fileName) fileName)
      | None \<Rightarrow>
          (\<lambda>fileName. (raw_getOutliningSpans (service (context' this)) fileName, [CallOriginal])))"
  by (cases "wrapped_getOutliningSpans (wrappers this)") (simp_all add: decorate_def Let_def)

lemma decorate_findReferences:
  "proxy_findReferences (decorate this) =
     (case wrapped_findReferences (wrappers this) of
        Some wrapper \<Rightarrow>
          (\<lambda>fileName gloOffset.
             wrapper (\<lambda>_. raw_findReferences (service (context' this)) fileName gloOffset) fileName gloOffset)
      | None \<Rightarrow>
          (\<lambda>fileName gloOffset. (raw_findReferences (service (context' this)) fileName gloOffset, [CallOriginal])))"
  by (cases "wrapped_findReferences (wrappers this)") (simp_all add: decorate_def Let_def)

lemma decorate_getJsxClosingTagAtPosition:
  "proxy_getJsxClosingTagAtPosition (decorate this) =
     (case wrapped_getJsxClosingTagAtPosition (wrappers this) of
        Some wrapper \<Rightarrow>
          (\<lambda>fileName gloOffset.
             wrapper (\<lambda>_. raw_getJsxClosingTagAtPosition (service (context' this)) fileName gloOffset) fileName gloOffset)
      | None \<Rightarrow>
          (\<lambda>fileName gloOffset. (raw_getJsxClosingTagAtPosition (service (context' this)) fileName gloOffset, [CallOriginal])))"
  by (cases "wrapped_getJsxClosingTagAtPosition (wrappers this)") (simp_all add: decorate_def Let_def)

lemma decorate_otherOperations:
  "proxy_otherOperations (decorate this) =
     (\<lambda>property args. (raw_otherOperations (service (context' this)) property args,
        [CallOriginal]))"
  by (simp add: decorate_def Let_def)

lemma decorated_service:
  "service (context' (fst (TSLanguageServiceProxy ctx router provider ts))) = service ctx"
  by (simp add: TSLanguageServiceProxy_def Let_def)

section \<open>The loops over the templates\<close>

lemma fold_append_all:
  "fold (\<lambda>t (acc, log). (acc @ f t, log @ [g t])) ts (a, l)
     = (a @ concat (map f ts), l @ map g ts)"
  by (induction ts arbitrary: a l) simp_all

lemma fold_append_filtered:
  "fold (\<lambda>t (acc, log). if \<not> P t then (acc, log) else (acc @ f t, log @ [g t])) ts (a, l)
     = (a @ concat (map f (filter P ts)), l @ map g (filter P ts))"
  by (induction ts arbitrary: a l) simp_all

lemma fold_append_self:
  "fold (\<lambda>t (acc, log). (acc @ acc, log @ [g t])) ts ([], l) = ([], l @ map g ts)"
  by (induction ts arbitrary: l) simp_all

section \<open>Completions: the template result replaces the host result\<close>

text \<open>
  Claim C1. \<open>getCompletionsAtPosition\<close> on the decorated service, the template service
  implementing the completions method \<open>handler\<close>. When the provider finds no template at
  the global offset, the result is the host's result, from one call of the host. When it
  finds a template, the only call made is the call of \<open>handler\<close> with the template and
  the local offset \<open>globalOffsetToLocal(gloOffset)\<close>; the result is the handler's
  result, \<open>undefined\<close> included, with \<open>translateTextSpan\<close> applied to the
  \<open>replacementSpan\<close> of every entry; the host is not called.
\<close>

theorem composite_getCompletionsAtPosition:
  assumes "getCompletionsAtPosition router = Some handler"
  shows
   "(getTemplateAt provider fileName gloOffset = None \<longrightarrow>
       proxy_getCompletionsAtPosition
         (decorate (fst (TSLanguageServiceProxy ctx router provider ts)))
         fileName gloOffset options
       = (raw_getCompletionsAtPosition (service ctx) fileName gloOffset options,
          [CallOriginal])) \<and>
    (\<forall>template. getTemplateAt provider fileName gloOffset = Some template \<longrightarrow>
       proxy_getCompletionsAtPosition
         (decorate (fst (TSLanguageServiceProxy ctx router provider ts)))
         fileName gloOffset options
       = (map_option
            (\<lambda>info. info\<lparr>entries :=
               map (\<lambda>entry. entry\<lparr>entry_replacementSpan :=
                      translateTextSpan (entry_replacementSpan entry) template\<rparr>)
                 (entries info)\<rparr>)
            (handler template (globalOffsetToLocal template gloOffset) options),
          [CallTemplateService ''getCompletionsAtPosition'' template
             [globalOffsetToLocal template gloOffset]]))"
  using assms
  by (simp add: decorate_getCompletionsAtPosition installed_getCompletionsAtPosition
      decorated_service getCompletionsAtPositionWrapper_def Let_def)

lemma sample_locator:
  "getTemplateAt (locatorOf sampleTemplates) fileName 3 = None"
  "getTemplateAt (locatorOf sampleTemplates) fileName 10 = Some \<lparr>globalStart = 7, globalEnd = 16\<rparr>"
  "getTemplateAt (locatorOf sampleTemplates) fileName 43 = Some \<lparr>globalStart = 43, globalEnd = 52\<rparr>"
  "getAllTemplates (locatorOf sampleTemplates) fileName =
     [\<lparr>globalStart = 7, globalEnd = 16\<rparr>, \<lparr>globalStart = 43, globalEnd = 52\<rparr>]"
  by (simp_all add: locatorOf_def sampleTemplates_def)

theorem composite_getCompletionsAtPosition_witness:
  "proxy_getCompletionsAtPosition
     (decorate (fst (TSLanguageServiceProxy \<lparr>service = sampleHost\<rparr>
        (noService\<lparr>getCompletionsAtPosition := Some sampleCompletions\<rparr>)
        (locatorOf sampleTemplates) sampleTs)))
     ''a.ts'' 3 ''opts''
   = (raw_getCompletionsAtPosition sampleHost ''a.ts'' 3 ''opts'', [CallOriginal]) \<and>
   proxy_getCompletionsAtPosition
     (decorate (fst (TSLanguageServiceProxy \<lparr>service = sampleHost\<rparr>
        (noService\<lparr>getCompletionsAtPosition := Some sampleCompletions\<rparr>)
        (locatorOf sampleTemplates) sampleTs)))
     ''a.ts'' 10 ''opts''
   = (Some \<lparr>isGlobalCompletion = False, isMemberCompletion = False,
             isNewIdentifierLocation = False,
             entries = [\<lparr>entry_name = ''click'', entry_kind = ''property'',
                         entry_sortText = ''click'', entry_insertText = Some ''click'',
                         entry_replacementSpan =
                           Some \<lparr>span_start = 9, span_length = 1\<rparr>\<rparr>,
                        \<lparr>entry_name = ''focus'', entry_kind = ''property'',
                         entry_sortText = ''focus'', entry_insertText = Some ''focus'',
                         entry_replacementSpan = None\<rparr>]\<rparr>,
      [CallTemplateService ''getCompletionsAtPosition'' \<lparr>globalStart = 7, globalEnd = 16\<rparr> [3]]) \<and>
   proxy_getCompletionsAtPosition
     (decorate (fst (TSLanguageServiceProxy \<lparr>service = sampleHost\<rparr>
        (noService\<lparr>getCompletionsAtPosition := Some sampleCompletions\<rparr>)
        (locatorOf sampleTemplates) sampleTs)))
     ''a.ts'' 43 ''opts''
   = (None,
      [CallTemplateService ''getCompletionsAtPosition'' \<lparr>globalStart = 43, globalEnd = 52\<rparr> [0]])"
proof -
  have implemented:
    "getCompletionsAtPosition (noService\<lparr>getCompletionsAtPosition := Some sampleCompletions\<rparr>)
       = Some sampleCompletions"
    by simp
  note inst = composite_getCompletionsAtPosition [OF implemented,
      of "locatorOf sampleTemplates" "''a.ts''" _ "\<lparr>service = sampleHost\<rparr>" sampleTs "''opts''"]
  show ?thesis
    using inst [of 3] inst [of 10] inst [of 43]
    by (simp add: sample_locator sampleCompletions_def translateTextSpan_def
        globalOffsetToLocal_def localOffsetToGlobal_def)
qed

section \<open>Semantic diagnostics: merged over the whole document\<close>

lemma concat_nonempty:
  "ts \<noteq> [] \<Longrightarrow> (\<And>t. t \<in> set ts \<Longrightarrow> f t \<noteq> []) \<Longrightarrow> concat (map f ts) \<noteq> []"
  by (cases ts) auto

lemma semantic_wrapper:
  "getSemanticDiagnosticsWrapper \<lparr>templateService = router, templateProvider = provider\<rparr>
     handler callOriginal fileName
   = (callOriginal () @
      concat (map (\<lambda>template.
                map (\<lambda>diagnostic. diagnostic\<lparr>diag_start :=
                       localOffsetToGlobal template (diag_start diagnostic)\<rparr>)
                  (handler template))
              (getAllTemplates provider fileName)),
      map (\<lambda>template. CallTemplateService ''getSemanticDiagnostics'' template [])
        (getAllTemplates provider fileName) @ [CallOriginal])"
  by (simp add: getSemanticDiagnosticsWrapper_def fold_append_all)

text \<open>
  Claim C3. \<open>getSemanticDiagnostics\<close> on the decorated service, the template service
  implementing the semantic diagnostics method \<open>handler\<close>. For every document the
  result is the host's diagnostics followed by, for every template of the document in
  turn, the diagnostics \<open>handler\<close> gives for the template, each with its start moved
  by \<open>localOffsetToGlobal\<close>; the handler is called once per template and then the host
  once. Hence, when the document has a template and the handler gives at least one
  diagnostic for each template, the result is strictly longer than the host's.
\<close>

theorem composite_getSemanticDiagnostics:
  assumes "getSemanticDiagnostics router = Some handler"
  shows
   "proxy_getSemanticDiagnostics
      (decorate (fst (TSLanguageServiceProxy ctx router provider ts))) fileName
    = (raw_getSemanticDiagnostics (service ctx) fileName @
       concat (map (\<lambda>template.
                 map (\<lambda>diagnostic. diagnostic\<lparr>diag_start :=
                        localOffsetToGlobal template (diag_start diagnostic)\<rparr>)
                   (handler template))
               (getAllTemplates provider fileName)),
       map (\<lambda>template. CallTemplateService ''getSemanticDiagnostics'' template [])
         (getAllTemplates provider fileName) @ [CallOriginal]) \<and>
    (getAllTemplates provider fileName \<noteq> [] \<and>
     (\<forall>template \<in> set (getAllTemplates provider fileName). handler template \<noteq> []) \<longrightarrow>
       length (raw_getSemanticDiagnostics (service ctx) fileName)
       < length (fst (proxy_getSemanticDiagnostics
           (decorate (fst (TSLanguageServiceProxy ctx router provider ts))) fileName)))"
proof -
  let ?templates = "getAllTemplates provider fileName"
  let ?sub = "\<lambda>template.
      map (\<lambda>diagnostic. diagnostic\<lparr>diag_start :=
             localOffsetToGlobal template (diag_start diagnostic)\<rparr>)
        (handler template)"
  have result: "proxy_getSemanticDiagnostics
      (decorate (fst (TSLanguageServiceProxy ctx router provider ts))) fileName
    = (raw_getSemanticDiagnostics (service ctx) fileName @ concat (map ?sub ?templates),
       map (\<lambda>template. CallTemplateService ''getSemanticDiagnostics'' template [])
         ?templates @ [CallOriginal])"
    using assms
    by (simp add: decorate_getSemanticDiagnostics installed_getSemanticDiagnostics
        decorated_service semantic_wrapper)
  have longer: "concat (map ?sub ?templates) \<noteq> []"
    if "?templates \<noteq> []" and "\<forall>template \<in> set ?templates. handler template \<noteq> []"
    using that by (intro concat_nonempty) simp_all
  show ?thesis
    unfolding result using longer by auto
qed

theorem composite_getSemanticDiagnostics_witness:
  "proxy_getSemanticDiagnostics
     (decorate (fst (TSLanguageServiceProxy \<lparr>service = sampleHost\<rparr>
        (noService\<lparr>getSemanticDiagnostics := Some sampleDiagnostics\<rparr>)
        (locatorOf sampleTemplates) sampleTs)))
     ''a.ts''
   = ([\<lparr>diag_start = 0, diag_length = 1, diag_code = 2304, diag_messageText = ''host''\<rparr>,
       \<lparr>diag_start = 8, diag_length = 2, diag_code = 9001, diag_messageText = ''template''\<rparr>,
       \<lparr>diag_start = 44, diag_length = 2, diag_code = 9001, diag_messageText = ''template''\<rparr>],
      [CallTemplateService ''getSemanticDiagnostics'' \<lparr>globalStart = 7, globalEnd = 16\<rparr> [],
       CallTemplateService ''getSemanticDiagnostics'' \<lparr>globalStart = 43, globalEnd = 52\<rparr> [],
       CallOriginal]) \<and>
   getAllTemplates (locatorOf sampleTemplates) ''a.ts'' \<noteq> [] \<and>
   list_all (\<lambda>template. sampleDiagnostics template \<noteq> [])
     (getAllTemplates (locatorOf sampleTemplates) ''a.ts'') \<and>
   length (raw_getSemanticDiagnostics sampleHost ''a.ts'')
   < length (fst (proxy_getSemanticDiagnostics
       (decorate (fst (TSLanguageServiceProxy \<lparr>service = sampleHost\<rparr>
          (noService\<lparr>getSemanticDiagnostics := Some sampleDiagnostics\<rparr>)
          (locatorOf sampleTemplates) sampleTs)))
       ''a.ts''))"
proof -
  have implemented:
    "getSemanticDiagnostics (noService\<lparr>getSemanticDiagnostics := Some sampleDiagnostics\<rparr>)
       = Some sampleDiagnostics"
    by simp
  show ?thesis
    using composite_getSemanticDiagnostics [OF implemented,
      of "\<lparr>service = sampleHost\<rparr>" "locatorOf sampleTemplates" sampleTs "''a.ts''"]
    by (simp add: sample_locator sampleDiagnostics_def sampleHost_def localOffsetToGlobal_def)
qed

section \<open>Formatting edits and code fixes: merged over the intersecting templates\<close>

lemma formatting_wrapper:
  "getFormattingEditsForRangeWrapper \<lparr>templateService = router, templateProvider = provider\<rparr>
     handler callOriginal fileName gloStart gloEnd options
   = (callOriginal () @
      concat (map (\<lambda>template.
                map (\<lambda>change. change\<lparr>change_span :=
                       translateTextSpan (change_span change) template\<rparr>)
                  (handler template (globalOffsetToLocal template gloStart)
                     (globalOffsetToLocal template gloEnd) options))
              (filter (\<lambda>template. intersectWith template gloStart gloEnd)
                 (getAllTemplates provider fileName))),
      map (\<lambda>template. CallTemplateService ''getFormattingEditsForRange'' template
             [globalOffsetToLocal template gloStart, globalOffsetToLocal template gloEnd])
        (filter (\<lambda>template. intersectWith template gloStart gloEnd)
           (getAllTemplates provider fileName)) @ [CallOriginal])"
  unfolding getFormattingEditsForRangeWrapper_def Let_def
  by (simp add: fold_append_filtered)

lemma codeFixes_wrapper:
  "getCodeFixesAtPositionWrapper \<lparr>templateService = router, templateProvider = provider\<rparr>
     handler callOriginal fileName gloStart gloEnd errorCodes options preferences
   = (callOriginal () @
      concat (map (\<lambda>template.
                map (\<lambda>action. action\<lparr>fix_changes :=
                       map (\<lambda>change. change\<lparr>file_textChanges :=
                              map (\<lambda>change. change\<lparr>change_span :=
                                     translateTextSpan (change_span change) template\<rparr>)
                                (file_textChanges change)\<rparr>)
                         (fix_changes action)\<rparr>)
                  (handler template (globalOffsetToLocal template gloStart)
                     (globalOffsetToLocal template gloEnd) errorCodes options preferences))
              (filter (\<lambda>template. intersectWith template gloStart gloEnd)
                 (getAllTemplates provider fileName))),
      map (\<lambda>template. CallTemplateService ''getCodeFixesAtPosition'' template
             [globalOffsetToLocal template gloStart, globalOffsetToLocal template gloEnd])
        (filter (\<lambda>template. intersectWith template gloStart gloEnd)
           (getAllTemplates provider fileName)) @ [CallOriginal])"
  unfolding getCodeFixesAtPositionWrapper_def Let_def
  by (simp add: fold_append_filtered)

lemma formatting_result:
  assumes "getFormattingEditsForRange router = Some handler"
  shows
   "proxy_getFormattingEditsForRange
      (decorate (fst (TSLanguageServiceProxy ctx router provider ts)))
      fileName gloStart gloEnd options
    = (raw_getFormattingEditsForRange (service ctx) fileName gloStart gloEnd options @
       concat (map (\<lambda>template.
                 map (\<lambda>change. change\<lparr>change_span :=
                        translateTextSpan (change_span change) template\<rparr>)
                   (handler template (globalOffsetToLocal template gloStart)
                      (globalOffsetToLocal template gloEnd) options))
               (filter (\<lambda>template. intersectWith template gloStart gloEnd)
                  (getAllTemplates provider fileName))),
       map (\<lambda>template. CallTemplateService ''getFormattingEditsForRange'' template
              [globalOffsetToLocal template gloStart, globalOffsetToLocal template gloEnd])
         (filter (\<lambda>template. intersectWith template gloStart gloEnd)
            (getAllTemplates provider fileName)) @ [CallOriginal])"
  using assms
  by (simp add: decorate_getFormattingEditsForRange installed_getFormattingEditsForRange
      decorated_service formatting_wrapper)

lemma codeFixes_result:
  assumes "getCodeFixesAtPosition router = Some handler"
  shows
   "proxy_getCodeFixesAtPosition
      (decorate (fst (TSLanguageServiceProxy ctx router provider ts)))
      fileName gloStart gloEnd errorCodes options preferences
    = (raw_getCodeFixesAtPosition (service ctx) fileName gloStart gloEnd errorCodes
         options preferences @
       concat (map (\<lambda>template.
                 map (\<lambda>action. action\<lparr>fix_changes :=
                        map (\<lambda>change. change\<lparr>file_textChanges :=
                               map (\<lambda>change. change\<lparr>change_span :=
                                      translateTextSpan (change_span change) template\<rparr>)
                                 (file_textChanges change)\<rparr>)
                          (fix_changes action)\<rparr>)
                   (handler template (globalOffsetToLocal template gloStart)
                      (globalOffsetToLocal template gloEnd) errorCodes options preferences))
               (filter (\<lambda>template. intersectWith template gloStart gloEnd)
                  (getAllTemplates provider fileName))),
       map (\<lambda>template. CallTemplateService ''getCodeFixesAtPosition'' template
              [globalOffsetToLocal template gloStart, globalOffsetToLocal template gloEnd])
         (filter (\<lambda>template. intersectWith template gloStart gloEnd)
            (getAllTemplates provider fileName)) @ [CallOriginal])"
  using assms
  by (simp add: decorate_getCodeFixesAtPosition installed_getCodeFixesAtPosition
      decorated_service codeFixes_wrapper)

text \<open>
  Claim C4. \<open>getFormattingEditsForRange\<close> and \<open>getCodeFixesAtPosition\<close> on the
  decorated service, each for a template service that implements the method. The result
  is the host's result followed by the results of the handler for the templates of the
  document that intersect the requested global range, in order, with
  \<open>translateTextSpan\<close> applied to every span: the span of each formatting edit, and for
  code fixes the span of every text change of every file change of every action. The
  handler is called once for each intersecting template, with the local start and end,
  and then the host once. A template that does not intersect the range is skipped: the
  log holds no call of the handler for it, and it adds no item to the result.
\<close>

theorem composite_range_filtered:
  "(getFormattingEditsForRange router = Some formatHandler \<longrightarrow>
      proxy_getFormattingEditsForRange
        (decorate (fst (TSLanguageServiceProxy ctx router provider ts)))
        fileName gloStart gloEnd options
      = (raw_getFormattingEditsForRange (service ctx) fileName gloStart gloEnd options @
         concat (map (\<lambda>template.
                   map (\<lambda>change. change\<lparr>change_span :=
                          translateTextSpan (change_span change) template\<rparr>)
                     (formatHandler template (globalOffsetToLocal template gloStart)
                        (globalOffsetToLocal template gloEnd) options))
                 (filter (\<lambda>template. intersectWith template gloStart gloEnd)
                    (getAllTemplates provider fileName))),
         map (\<lambda>template. CallTemplateService ''getFormattingEditsForRange'' template
                [globalOffsetToLocal template gloStart, globalOffsetToLocal template gloEnd])
           (filter (\<lambda>template. intersectWith template gloStart gloEnd)
              (getAllTemplates provider fileName)) @ [CallOriginal]) \<and>
      (\<forall>template args. \<not> intersectWith template gloStart gloEnd \<longrightarrow>
         CallTemplateService ''getFormattingEditsForRange'' template args
         \<notin> set (snd (proxy_getFormattingEditsForRange
               (decorate (fst (TSLanguageServiceProxy ctx router provider ts)))
               fileName gloStart gloEnd options))) \<and>
      (\<forall>template \<in> set (getAllTemplates provider fileName).
         intersectWith template gloStart gloEnd \<longrightarrow>
         CallTemplateService ''getFormattingEditsForRange'' template
           [globalOffsetToLocal template gloStart, globalOffsetToLocal template gloEnd]
         \<in> set (snd (proxy_getFormattingEditsForRange
               (decorate (fst (TSLanguageServiceProxy ctx router provider ts)))
               fileName gloStart gloEnd options)))) \<and>
   (getCodeFixesAtPosition router = Some fixHandler \<longrightarrow>
      proxy_getCodeFixesAtPosition
        (decorate (fst (TSLanguageServiceProxy ctx router provider ts)))
        fileName gloStart gloEnd errorCodes options preferences
      = (raw_getCodeFixesAtPosition (service ctx) fileName gloStart gloEnd errorCodes
           options preferences @
         concat (map (\<lambda>template.
                   map (\<lambda>action. action\<lparr>fix_changes :=
                          map (\<lambda>change. change\<lparr>file_textChanges :=
                                 map (\<lambda>change. change\<lparr>change_span :=
                                        translateTextSpan (change_span change) template\<rparr>)
                                   (file_textChanges change)\<rparr>)
                            (fix_changes action)\<rparr>)
                     (fixHandler template (globalOffsetToLocal template gloStart)
                        (globalOffsetToLocal template gloEnd) errorCodes options preferences))
                 (filter (\<lambda>template. intersectWith template gloStart gloEnd)
                    (getAllTemplates provider fileName))),
         map (\<lambda>template. CallTemplateService ''getCodeFixesAtPosition'' template
                [globalOffsetToLocal template gloStart, globalOffsetToLocal template gloEnd])
           (filter (\<lambda>template. intersectWith template gloStart gloEnd)
              (getAllTemplates provider fileName)) @ [CallOriginal]) \<and>
      (\<forall>template args. \<not> intersectWith template gloStart gloEnd \<longrightarrow>
         CallTemplateService ''getCodeFixesAtPosition'' template args
         \<notin> set (snd (proxy_getCodeFixesAtPosition
               (decorate (fst (TSLanguageServiceProxy ctx router provider ts)))
               fileName gloStart gloEnd errorCodes options preferences))) \<and>
      (\<forall>template \<in> set (getAllTemplates provider fileName).
         intersectWith template gloStart gloEnd \<longrightarrow>
         CallTemplateService ''getCodeFixesAtPosition'' template
           [globalOffsetToLocal template gloStart, globalOffsetToLocal template gloEnd]
         \<in> set (snd (proxy_getCodeFixesAtPosition
               (decorate (fst (TSLanguageServiceProxy ctx router provider ts)))
               fileName gloStart gloEnd errorCodes options preferences))))"
proof (intro conjI impI)
  assume implemented: "getFormattingEditsForRange router = Some formatHandler"
  note result = formatting_result [OF implemented, of ctx provider ts fileName gloStart gloEnd options]
  show "proxy_getFormattingEditsForRange
        (decorate (fst (TSLanguageServiceProxy ctx router provider ts)))
        fileName gloStart gloEnd options
      = (raw_getFormattingEditsForRange (service ctx) fileName gloStart gloEnd options @
         concat (map (\<lambda>template.
                   map (\<lambda>change. change\<lparr>change_span :=
                          translateTextSpan (change_span change) template\<rparr>)
                     (formatHandler template (globalOffsetToLocal template gloStart)
                        (globalOffsetToLocal template gloEnd) options))
                 (filter (\<lambda>template. intersectWith template gloStart gloEnd)
                    (getAllTemplates provider fileName))),
         map (\<lambda>template. CallTemplateService ''getFormattingEditsForRange'' template
                [globalOffsetToLocal template gloStart, globalOffsetToLocal template gloEnd])
           (filter (\<lambda>template. intersectWith template gloStart gloEnd)
              (getAllTemplates provider fileName)) @ [CallOriginal])"
    by (rule result)
  show "\<forall>template args. \<not> intersectWith template gloStart gloEnd \<longrightarrow>
         CallTemplateService ''getFormattingEditsForRange'' template args
         \<notin> set (snd (proxy_getFormattingEditsForRange
               (decorate (fst (TSLanguageServiceProxy ctx router provider ts)))
               fileName gloStart gloEnd options))"
    unfolding result by auto
  show "\<forall>template \<in> set (getAllTemplates provider fileName).
         intersectWith template gloStart gloEnd \<longrightarrow>
         CallTemplateService ''getFormattingEditsForRange'' template
           [globalOffsetToLocal template gloStart, globalOffsetToLocal template gloEnd]
         \<in> set (snd (proxy_getFormattingEditsForRange
               (decorate (fst (TSLanguageServiceProxy ctx router provider ts)))
               fileName gloStart gloEnd options))"
    unfolding result by auto
next
  assume implemented: "getCodeFixesAtPosition router = Some fixHandler"
  note result = codeFixes_result [OF implemented,
      of ctx provider ts fileName gloStart gloEnd errorCodes options preferences]
  show "proxy_getCodeFixesAtPosition
        (decorate (fst (TSLanguageServiceProxy ctx router provider ts)))
        fileName gloStart gloEnd errorCodes options preferences
      = (raw_getCodeFixesAtPosition (service ctx) fileName gloStart gloEnd errorCodes
           options preferences @
         concat (map (\<lambda>template.
                   map (\<lambda>action. action\<lparr>fix_changes :=
                          map (\<lambda>change. change\<lparr>file_textChanges :=
                                 map (\<lambda>change. change\<lparr>change_span :=
                                        translateTextSpan (change_span change) template\<rparr>)
                                   (file_textChanges change)\<rparr>)
                            (fix_changes action)\<rparr>)
                     (fixHandler template (globalOffsetToLocal template gloStart)
                        (globalOffsetToLocal template gloEnd) errorCodes options preferences))
                 (filter (\<lambda>template. intersectWith template gloStart gloEnd)
                    (getAllTemplates provider fileName))),
         map (\<lambda>template. CallTemplateService ''getCodeFixesAtPosition'' template
                [globalOffsetToLocal template gloStart, globalOffsetToLocal template gloEnd])
           (filter (\<lambda>template. intersectWith template gloStart gloEnd)
              (getAllTemplates provider fileName)) @ [CallOriginal])"
    by (rule result)
  show "\<forall>template args. \<not> intersectWith template gloStart gloEnd \<longrightarrow>
         CallTemplateService ''getCodeFixesAtPosition'' template args
         \<notin> set (snd (proxy_getCodeFixesAtPosition
               (decorate (fst (TSLanguageServiceProxy ctx router provider ts)))
               fileName gloStart gloEnd errorCodes options preferences))"
    unfolding result by auto
  show "\<forall>template \<in> set (getAllTemplates provider fileName).
         intersectWith template gloStart gloEnd \<longrightarrow>
         CallTemplateService ''getCodeFixesAtPosition'' template
           [globalOffsetToLocal template gloStart, globalOffsetToLocal template gloEnd]
         \<in> set (snd (proxy_getCodeFixesAtPosition
               (decorate (fst (TSLanguageServiceProxy ctx router provider ts)))
               fileName gloStart gloEnd errorCodes options preferences))"
    unfolding result by auto
qed

lemma sample_intersect:
  "intersectWith \<lparr>globalStart = 7, globalEnd = 16\<rparr> 0 10"
  "\<not> intersectWith \<lparr>globalStart = 43, globalEnd = 52\<rparr> 0 10"
  by (simp_all add: intersectWith_def)

theorem composite_range_filtered_witness:
  "intersectWith \<lparr>globalStart = 7, globalEnd = 16\<rparr> 0 10 \<and>
   \<not> intersectWith \<lparr>globalStart = 43, globalEnd = 52\<rparr> 0 10 \<and>
   proxy_getFormattingEditsForRange
     (decorate (fst (TSLanguageServiceProxy \<lparr>service = sampleHost\<rparr>
        (noService\<lparr>getFormattingEditsForRange := Some sampleFormatting,
                    getCodeFixesAtPosition := Some sampleCodeFixes\<rparr>)
        (locatorOf sampleTemplates) sampleTs)))
     ''a.ts'' 0 10 ''opts''
   = ([\<lparr>change_span = Some \<lparr>span_start = 0, span_length = 0\<rparr>, change_newText = ''host''\<rparr>,
       \<lparr>change_span = Some \<lparr>span_start = 9, span_length = 1\<rparr>, change_newText = ''x''\<rparr>],
      [CallTemplateService ''getFormattingEditsForRange'' \<lparr>globalStart = 7, globalEnd = 16\<rparr>
         [- 7, 3],
       CallOriginal]) \<and>
   CallTemplateService ''getFormattingEditsForRange'' \<lparr>globalStart = 43, globalEnd = 52\<rparr>
       [- 43, - 33]
     \<notin> set (snd (proxy_getFormattingEditsForRange
         (decorate (fst (TSLanguageServiceProxy \<lparr>service = sampleHost\<rparr>
            (noService\<lparr>getFormattingEditsForRange := Some sampleFormatting,
                        getCodeFixesAtPosition := Some sampleCodeFixes\<rparr>)
            (locatorOf sampleTemplates) sampleTs)))
         ''a.ts'' 0 10 ''opts'')) \<and>
   proxy_getCodeFixesAtPosition
     (decorate (fst (TSLanguageServiceProxy \<lparr>service = sampleHost\<rparr>
        (noService\<lparr>getFormattingEditsForRange := Some sampleFormatting,
                    getCodeFixesAtPosition := Some sampleCodeFixes\<rparr>)
        (locatorOf sampleTemplates) sampleTs)))
     ''a.ts'' 0 10 [9001] ''opts'' ''prefs''
   = ([\<lparr>fix_fixName = ''import'', fix_description = ''add import'',
        fix_changes =
          [\<lparr>file_fileName = ''a.ts'',
             file_textChanges =
               [\<lparr>change_span = Some \<lparr>span_start = 8, span_length = 0\<rparr>,
                  change_newText = ''a''\<rparr>,
                \<lparr>change_span = Some \<lparr>span_start = 11, span_length = 2\<rparr>,
                  change_newText = ''b''\<rparr>]\<rparr>]\<rparr>],
      [CallTemplateService ''getCodeFixesAtPosition'' \<lparr>globalStart = 7, globalEnd = 16\<rparr>
         [- 7, 3],
       CallOriginal])"
proof -
  have format: "getFormattingEditsForRange
      (noService\<lparr>getFormattingEditsForRange := Some sampleFormatting,
                  getCodeFixesAtPosition := Some sampleCodeFixes\<rparr>) = Some sampleFormatting"
    by simp
  have codefix: "getCodeFixesAtPosition
      (noService\<lparr>getFormattingEditsForRange := Some sampleFormatting,
                  getCodeFixesAtPosition := Some sampleCodeFixes\<rparr>) = Some sampleCodeFixes"
    by simp
  show ?thesis
    using format codefix
      composite_range_filtered
        [of "noService\<lparr>getFormattingEditsForRange := Some sampleFormatting,
                        getCodeFixesAtPosition := Some sampleCodeFixes\<rparr>"
            sampleFormatting "\<lparr>service = sampleHost\<rparr>" "locatorOf sampleTemplates" sampleTs
            "''a.ts''" 0 10 "''opts''" sampleCodeFixes "[9001]" "''prefs''"]
    by (simp add: sample_locator sample_intersect sampleFormatting_def sampleCodeFixes_def
        sampleHost_def translateTextSpan_def globalOffsetToLocal_def localOffsetToGlobal_def)
qed

section \<open>Find references: registered as \<open>findReferences\<close>\<close>

text \<open>
  Claim C9. The constructor registers a wrapper under the host's operation name
  \<open>findReferences\<close> exactly when the template service has the differently named method
  \<open>getReferencesAtPosition\<close>. When the provider finds a template at the offset, the
  decorated \<open>findReferences\<close> calls that method with the template and the local offset
  and returns its symbols, with \<open>translateTextSpan\<close> applied to the text span of each
  symbol's definition, in place of the host's result; the host is not called.
\<close>

theorem composite_findReferences:
  "(wrapped_findReferences (wrappers (fst (TSLanguageServiceProxy ctx router provider ts)))
      \<noteq> None)
   = (getReferencesAtPosition router \<noteq> None) \<and>
   (\<forall>handler context.
      getReferencesAtPosition router = Some handler \<and>
      getTemplateAt provider fileName gloOffset = Some context \<longrightarrow>
      proxy_findReferences
        (decorate (fst (TSLanguageServiceProxy ctx router provider ts))) fileName gloOffset
      = (map_option
           (map (\<lambda>symbol. symbol\<lparr>sym_definition :=
              (sym_definition symbol)\<lparr>def_textSpan :=
                 translateTextSpan (def_textSpan (sym_definition symbol)) context\<rparr>\<rparr>))
           (handler context (globalOffsetToLocal context gloOffset)),
         [CallTemplateService ''getReferencesAtPosition'' context
            [globalOffsetToLocal context gloOffset]]))"
  by (simp add: decorate_findReferences installed_findReferences decorated_service
      findReferencesWrapper_def Let_def split: option.split)

theorem composite_findReferences_witness:
  "wrapped_findReferences (wrappers (fst (TSLanguageServiceProxy \<lparr>service = sampleHost\<rparr>
       (noService\<lparr>getReferencesAtPosition := Some sampleReferences\<rparr>)
       (locatorOf sampleTemplates) sampleTs))) \<noteq> None \<and>
   proxy_findReferences
     (decorate (fst (TSLanguageServiceProxy \<lparr>service = sampleHost\<rparr>
        (noService\<lparr>getReferencesAtPosition := Some sampleReferences\<rparr>)
        (locatorOf sampleTemplates) sampleTs)))
     ''a.ts'' 10
   = (Some [\<lparr>sym_definition =
               \<lparr>def_fileName = ''a.ts'',
                def_textSpan = Some \<lparr>span_start = 10, span_length = 3\<rparr>,
                def_name = ''Button''\<rparr>,
             sym_references = []\<rparr>],
      [CallTemplateService ''getReferencesAtPosition'' \<lparr>globalStart = 7, globalEnd = 16\<rparr> [3]])"
  using composite_findReferences
    [of "\<lparr>service = sampleHost\<rparr>" "noService\<lparr>getReferencesAtPosition := Some sampleReferences\<rparr>"
        "locatorOf sampleTemplates" sampleTs "''a.ts''" 10]
  by (simp add: sample_locator sampleReferences_def translateTextSpan_def
      globalOffsetToLocal_def localOffsetToGlobal_def)

section \<open>The supported code fixes are extended once\<close>

lemma calls_leave_module:
  "callsGetSupportedCodeFixes n ts = (replicate n (ts_getSupportedCodeFixes ts ()), ts)"
  by (induction n) (simp_all add: callGetSupportedCodeFixes_def)

lemma constructed_ts:
  "snd (TSLanguageServiceProxy ctx router provider ts)
   = wrapGetSupportedCodeFixes \<lparr>templateService = router, templateProvider = provider\<rparr> ts"
  unfolding TSLanguageServiceProxy_def Let_def by simp

text \<open>
  Claim C7. When the template service has \<open>getSupportedCodeFixes\<close>, the constructor
  replaces \<open>ts.getSupportedCodeFixes\<close> once, by the function that returns the host's
  codes followed by the template service's codes as strings. Afterwards any number
  \<open>n\<close> of calls of the enumeration return that same list \<open>n\<close> times and leave
  the module as the constructor left it: the list does not grow from call to call.
\<close>

theorem supportedCodeFixes_extended_once:
  assumes "getSupportedCodeFixes router = Some handler"
  shows
   "snd (TSLanguageServiceProxy ctx router provider ts)
    = ts\<lparr>ts_getSupportedCodeFixes :=
           (\<lambda>_. ts_getSupportedCodeFixes ts () @ map (\<lambda>x. String x) (handler ()))\<rparr> \<and>
    callsGetSupportedCodeFixes n (snd (TSLanguageServiceProxy ctx router provider ts))
    = (replicate n (ts_getSupportedCodeFixes ts () @ map (\<lambda>x. String x) (handler ())),
       snd (TSLanguageServiceProxy ctx router provider ts))"
  using assms
  by (simp add: constructed_ts wrapGetSupportedCodeFixes_def Let_def calls_leave_module)

lemma String_samples: "String 9001 = ''9001''" "String 9002 = ''9002''"
  by (simp_all add: String_def digits.simps)

theorem supportedCodeFixes_extended_once_witness:
  "fst (callsGetSupportedCodeFixes 3
     (snd (TSLanguageServiceProxy \<lparr>service = sampleHost\<rparr>
        (noService\<lparr>getSupportedCodeFixes := Some (\<lambda>_. [9001, 9002])\<rparr>)
        (locatorOf sampleTemplates) sampleTs)))
   = [[''1002'', ''2304'', ''9001'', ''9002''],
      [''1002'', ''2304'', ''9001'', ''9002''],
      [''1002'', ''2304'', ''9001'', ''9002'']]"
proof -
  have implemented:
    "getSupportedCodeFixes (noService\<lparr>getSupportedCodeFixes := Some (\<lambda>_. [9001, 9002])\<rparr>)
       = Some (\<lambda>_. [9001, 9002])"
    by simp
  have "fst (callsGetSupportedCodeFixes 3
       (snd (TSLanguageServiceProxy \<lparr>service = sampleHost\<rparr>
          (noService\<lparr>getSupportedCodeFixes := Some (\<lambda>_. [9001, 9002])\<rparr>)
          (locatorOf sampleTemplates) sampleTs)))
     = replicate 3 (ts_getSupportedCodeFixes sampleTs () @ map (\<lambda>x. String x) [9001, 9002])"
    using supportedCodeFixes_extended_once [OF implemented,
      of "\<lparr>service = sampleHost\<rparr>" "locatorOf sampleTemplates" sampleTs 3,
      THEN conjunct2]
    by (simp only: fst_conv)
  also have "\<dots> = [[''1002'', ''2304'', ''9001'', ''9002''],
      [''1002'', ''2304'', ''9001'', ''9002''],
      [''1002'', ''2304'', ''9001'', ''9002'']]"
    by (simp add: sampleTs_def String_samples numeral_3_eq_3)
  finally show ?thesis .
qed

section \<open>Operations without a wrapper pass through\<close>

text \<open>
  Claim C6. On the service that \<open>decorate\<close> returns for a constructed proxy, every
  operation for which the constructor registered no wrapper is the host's operation:
  calling it gives the host's result from one call of the host. This holds for each of
  the thirteen operations a wrapper can be registered for, and for every other operation
  of the host, for which none ever is. For each of the fourteen intercepted operations the
  wrapper is installed exactly when the template service implements the method the
  constructor tests: thirteen wrappers in \<open>this.wrappers\<close> (\<open>getSignatureHelpItems\<close>
  and \<open>findReferences\<close> being tested as \<open>getSignatureHelpItemsAtPosition\<close> and
  \<open>getReferencesAtPosition\<close>), and the replacement of \<open>ts.getSupportedCodeFixes\<close>.
\<close>

theorem decorate_pass_through:
  "(wrapped_getCompletionsAtPosition (wrappers (fst (TSLanguageServiceProxy ctx router provider ts))) = None \<longrightarrow>
      proxy_getCompletionsAtPosition (decorate (fst (TSLanguageServiceProxy ctx router provider ts)))
      = (\<lambda>fileName gloOffset options. (raw_getCompletionsAtPosition (service ctx) fileName gloOffset options, [CallOriginal]))) \<and>
   (wrapped_getCompletionEntryDetails (wrappers (fst (TSLanguageServiceProxy ctx router provider ts))) = None \<longrightarrow>
      proxy_getCompletionEntryDetails (decorate (fst (TSLanguageServiceProxy ctx router provider ts)))
      = (\<lambda>fileName gloOffset name options. (raw_getCompletionEntryDetails (service ctx) fileName gloOffset name options, [CallOriginal]))) \<and>
   (wrapped_getQuickInfoAtPosition (wrappers (fst (TSLanguageServiceProxy ctx router provider ts))) = None \<longrightarrow>
      proxy_getQuickInfoAtPosition (decorate (fst (TSLanguageServiceProxy ctx router provider ts)))
      = (\<lambda>fileName gloOffset. (raw_getQuickInfoAtPosition (service ctx) fileName gloOffset, [CallOriginal]))) \<and>
   (wrapped_getDefinitionAtPosition (wrappers (fst (TSLanguageServiceProxy ctx router provider ts))) = None \<longrightarrow>
      proxy_getDefinitionAtPosition (decorate (fst (TSLanguageServiceProxy ctx router provider ts)))
      = (\<lambda>fileName gloOffset. (raw_getDefinitionAtPosition (service ctx) fileName gloOffset, [CallOriginal]))) \<and>
   (wrapped_getDefinitionAndBoundSpan (wrappers (fst (TSLanguageServiceProxy ctx router provider ts))) = None \<longrightarrow>
      proxy_getDefinitionAndBoundSpan (decorate (fst (TSLanguageServiceProxy ctx router provider ts)))
      = (\<lambda>fileName gloOffset. (raw_getDefinitionAndBoundSpan (service ctx) fileName gloOffset, [CallOriginal]))) \<and>
   (wrapped_getSemanticDiagnostics (wrappers (fst (TSLanguageServiceProxy ctx router provider ts))) = None \<longrightarrow>
      proxy_getSemanticDiagnostics (decorate (fst (TSLanguageServiceProxy ctx router provider ts)))
      = (\<lambda>fileName. (raw_getSemanticDiagnostics (service ctx) fileName, [CallOriginal]))) \<and>
   (wrapped_getSyntacticDiagnostics (wrappers (fst (TSLanguageServiceProxy ctx router provider ts))) = None \<longrightarrow>
      proxy_getSyntacticDiagnostics (decorate (fst (TSLanguageServiceProxy ctx router provider ts)))
      = (\<lambda>fileName. (raw_getSyntacticDiagnostics (service ctx) fileName, [CallOriginal]))) \<and>
   (wrapped_getFormattingEditsForRange (wrappers (fst (TSLanguageServiceProxy ctx router provider ts))) = None \<longrightarrow>
      proxy_getFormattingEditsForRange (decorate (fst (TSLanguageServiceProxy ctx router provider ts)))
      = (\<lambda>fileName gloStart gloEnd options. (raw_getFormattingEditsForRange (service ctx) fileName gloStart gloEnd options, [CallOriginal]))) \<and>
   (wrapped_getCodeFixesAtPosition (wrappers (fst (TSLanguageServiceProxy ctx router provider ts))) = None \<longrightarrow>
      proxy_getCodeFixesAtPosition (decorate (fst (TSLanguageServiceProxy ctx router provider ts)))
      = (\<lambda>fileName gloStart gloEnd errorCodes options preferences. (raw_getCodeFixesAtPosition (service ctx) fileName gloStart gloEnd errorCodes options preferences, [CallOriginal]))) \<and>
   (wrapped_getSignatureHelpItems (wrappers (fst (TSLanguageServiceProxy ctx router provider ts))) = None \<longrightarrow>
      proxy_getSignatureHelpItems (decorate (fst (TSLanguageServiceProxy ctx router provider ts)))
      = (\<lambda>fileName gloOffset options. (raw_getSignatureHelpItems (service ctx) fileName gloOffset options, [CallOriginal]))) \<and>
   (wrapped_getOutliningSpans (wrappers (fst (TSLanguageServiceProxy ctx router provider ts))) = None \<longrightarrow>
      proxy_getOutliningSpans (decorate (fst (TSLanguageServiceProxy ctx router provider ts)))
      = (\<lambda>fileName. (raw_getOutliningSpans (service ctx) fileName, [CallOriginal]))) \<and>
   (wrapped_findReferences (wrappers (fst (TSLanguageServiceProxy ctx router provider ts))) = None \<longrightarrow>
      proxy_findReferences (decorate (fst (TSLanguageServiceProxy ctx router provider ts)))
      = (\<lambda>fileName gloOffset. (raw_findReferences (service ctx) fileName gloOffset, [CallOriginal]))) \<and>
   (wrapped_getJsxClosingTagAtPosition (wrappers (fst (TSLanguageServiceProxy ctx router provider ts))) = None \<longrightarrow>
      proxy_getJsxClosingTagAtPosition (decorate (fst (TSLanguageServiceProxy ctx router provider ts)))
      = (\<lambda>fileName gloOffset. (raw_getJsxClosingTagAtPosition (service ctx) fileName gloOffset, [CallOriginal]))) \<and>
   proxy_otherOperations (decorate (fst (TSLanguageServiceProxy ctx router provider ts)))
    = (\<lambda>property args. (raw_otherOperations (service ctx) property args, [CallOriginal])) \<and>
   (wrapped_getCompletionsAtPosition (wrappers (fst (TSLanguageServiceProxy ctx router provider ts))) \<noteq> None)
    = (getCompletionsAtPosition router \<noteq> None) \<and>
   (wrapped_getCompletionEntryDetails (wrappers (fst (TSLanguageServiceProxy ctx router provider ts))) \<noteq> None)
    = (getCompletionEntryDetails router \<noteq> None) \<and>
   (wrapped_getQuickInfoAtPosition (wrappers (fst (TSLanguageServiceProxy ctx router provider ts))) \<noteq> None)
    = (getQuickInfoAtPosition router \<noteq> None) \<and>
   (wrapped_getDefinitionAtPosition (wrappers (fst (TSLanguageServiceProxy ctx router provider ts))) \<noteq> None)
    = (getDefinitionAtPosition router \<noteq> None) \<and>
   (wrapped_getDefinitionAndBoundSpan (wrappers (fst (TSLanguageServiceProxy ctx router provider ts))) \<noteq> None)
    = (getDefinitionAndBoundSpan router \<noteq> None) \<and>
   (wrapped_getSemanticDiagnostics (wrappers (fst (TSLanguageServiceProxy ctx router provider ts))) \<noteq> None)
    = (getSemanticDiagnostics router \<noteq> None) \<and>
   (wrapped_getSyntacticDiagnostics (wrappers (fst (TSLanguageServiceProxy ctx router provider ts))) \<noteq> None)
    = (getSyntacticDiagnostics router \<noteq> None) \<and>
   (wrapped_getFormattingEditsForRange (wrappers (fst (TSLanguageServiceProxy ctx router provider ts))) \<noteq> None)
    = (getFormattingEditsForRange router \<noteq> None) \<and>
   (wrapped_getCodeFixesAtPosition (wrappers (fst (TSLanguageServiceProxy ctx router provider ts))) \<noteq> None)
    = (getCodeFixesAtPosition router \<noteq> None) \<and>
   (wrapped_getSignatureHelpItems (wrappers (fst (TSLanguageServiceProxy ctx router provider ts))) \<noteq> None)
    = (getSignatureHelpItemsAtPosition router \<noteq> None) \<and>
   (wrapped_getOutliningSpans (wrappers (fst (TSLanguageServiceProxy ctx router provider ts))) \<noteq> None)
    = (getOutliningSpans router \<noteq> None) \<and>
   (wrapped_findReferences (wrappers (fst (TSLanguageServiceProxy ctx router provider ts))) \<noteq> None)
    = (getReferencesAtPosition router \<noteq> None) \<and>
   (wrapped_getJsxClosingTagAtPosition (wrappers (fst (TSLanguageServiceProxy ctx router provider ts))) \<noteq> None)
    = (getJsxClosingTagAtPosition router \<noteq> None) \<and>
   snd (TSLanguageServiceProxy ctx router provider ts)
    = (case getSupportedCodeFixes router of
         None \<Rightarrow> ts
       | Some handler \<Rightarrow>
           ts\<lparr>ts_getSupportedCodeFixes :=
                (\<lambda>_. ts_getSupportedCodeFixes ts () @ map (\<lambda>x. String x) (handler ()))\<rparr>)"
proof -
  let ?proxy = "fst (TSLanguageServiceProxy ctx router provider ts)"
  have pass_getCompletionsAtPosition:
    "wrapped_getCompletionsAtPosition (wrappers ?proxy) = None \<longrightarrow>
       proxy_getCompletionsAtPosition (decorate ?proxy)
       = (\<lambda>fileName gloOffset options. (raw_getCompletionsAtPosition (service ctx) fileName gloOffset options, [CallOriginal]))"
    by (simp add: decorate_getCompletionsAtPosition decorated_service)
  have pass_getCompletionEntryDetails:
    "wrapped_getCompletionEntryDetails (wrappers ?proxy) = None \<longrightarrow>
       proxy_getCompletionEntryDetails (decorate ?proxy)
       = (\<lambda>fileName gloOffset name options. (raw_getCompletionEntryDetails (service ctx) fileName gloOffset name options, [CallOriginal]))"
    by (simp add: decorate_getCompletionEntryDetails decorated_service)
  have pass_getQuickInfoAtPosition:
    "wrapped_getQuickInfoAtPosition (wrappers ?proxy) = None \<longrightarrow>
       proxy_getQuickInfoAtPosition (decorate ?proxy)
       = (\<lambda>fileName gloOffset. (raw_getQuickInfoAtPosition (service ctx) fileName gloOffset, [CallOriginal]))"
    by (simp add: decorate_getQuickInfoAtPosition decorated_service)
  have pass_getDefinitionAtPosition:
    "wrapped_getDefinitionAtPosition (wrappers ?proxy) = None \<longrightarrow>
       proxy_getDefinitionAtPosition (decorate ?proxy)
       = (\<lambda>fileName gloOffset. (raw_getDefinitionAtPosition (service ctx) fileName gloOffset, [CallOriginal]))"
    by (simp add: decorate_getDefinitionAtPosition decorated_service)
  have pass_getDefinitionAndBoundSpan:
    "wrapped_getDefinitionAndBoundSpan (wrappers ?proxy) = None \<longrightarrow>
       proxy_getDefinitionAndBoundSpan (decorate ?proxy)
       = (\<lambda>fileName gloOffset. (raw_getDefinitionAndBoundSpan (service ctx) fileName gloOffset, [CallOriginal]))"
    by (simp add: decorate_getDefinitionAndBoundSpan decorated_service)
  have pass_getSemanticDiagnostics:
    "wrapped_getSemanticDiagnostics (wrappers ?proxy) = None \<longrightarrow>
       proxy_getSemanticDiagnostics (decorate ?proxy)
       = (\<lambda>fileName. (raw_getSemanticDiagnostics (service ctx) fileName, [CallOriginal]))"
    by (simp add: decorate_getSemanticDiagnostics decorated_service)
  have pass_getSyntacticDiagnostics:
    "wrapped_getSyntacticDiagnostics (wrappers ?proxy) = None \<longrightarrow>
       proxy_getSyntacticDiagnostics (decorate ?proxy)
       = (\<lambda>fileName. (raw_getSyntacticDiagnostics (service ctx) fileName, [CallOriginal]))"
    by (simp add: decorate_getSyntacticDiagnostics decorated_service)
  have pass_getFormattingEditsForRange:
    "wrapped_getFormattingEditsForRange (wrappers ?proxy) = None \<longrightarrow>
       proxy_getFormattingEditsForRange (decorate ?proxy)
       = (\<lambda>fileName gloStart gloEnd options. (raw_getFormattingEditsForRange (service ctx) fileName gloStart gloEnd options, [CallOriginal]))"
    by (simp add: decorate_getFormattingEditsForRange decorated_service)
  have pass_getCodeFixesAtPosition:
    "wrapped_getCodeFixesAtPosition (wrappers ?proxy) = None \<longrightarrow>
       proxy_getCodeFixesAtPosition (decorate ?proxy)
       = (\<lambda>fileName gloStart gloEnd errorCodes options preferences. (raw_getCodeFixesAtPosition (service ctx) fileName gloStart gloEnd errorCodes options preferences, [CallOriginal]))"
    by (simp add: decorate_getCodeFixesAtPosition decorated_service)
  have pass_getSignatureHelpItems:
    "wrapped_getSignatureHelpItems (wrappers ?proxy) = None \<longrightarrow>
       proxy_getSignatureHelpItems (decorate ?proxy)
       = (\<lambda>fileName gloOffset options. (raw_getSignatureHelpItems (service ctx) fileName gloOffset options, [CallOriginal]))"
    by (simp add: decorate_getSignatureHelpItems decorated_service)
  have pass_getOutliningSpans:
    "wrapped_getOutliningSpans (wrappers ?proxy) = None \<longrightarrow>
       proxy_getOutliningSpans (decorate ?proxy)
       = (\<lambda>fileName. (raw_getOutliningSpans (service ctx) fileName, [CallOriginal]))"
    by (simp add: decorate_getOutliningSpans decorated_service)
  have pass_findReferences:
    "wrapped_findReferences (wrappers ?proxy) = None \<longrightarrow>
       proxy_findReferences (decorate ?proxy)
       = (\<lambda>fileName gloOffset. (raw_findReferences (service ctx) fileName gloOffset, [CallOriginal]))"
    by (simp add: decorate_findReferences decorated_service)
  have pass_getJsxClosingTagAtPosition:
    "wrapped_getJsxClosingTagAtPosition (wrappers ?proxy) = None \<longrightarrow>
       proxy_getJsxClosingTagAtPosition (decorate ?proxy)
       = (\<lambda>fileName gloOffset. (raw_getJsxClosingTagAtPosition (service ctx) fileName gloOffset, [CallOriginal]))"
    by (simp add: decorate_getJsxClosingTagAtPosition decorated_service)
  have pass_other:
    "proxy_otherOperations (decorate ?proxy)
     = (\<lambda>property args. (raw_otherOperations (service ctx) property args, [CallOriginal]))"
    by (simp add: decorate_otherOperations decorated_service)
  have iff_getCompletionsAtPosition:
    "(wrapped_getCompletionsAtPosition (wrappers ?proxy) \<noteq> None) = (getCompletionsAtPosition router \<noteq> None)"
    by (simp add: installed_getCompletionsAtPosition split: option.split)
  have iff_getCompletionEntryDetails:
    "(wrapped_getCompletionEntryDetails (wrappers ?proxy) \<noteq> None) = (getCompletionEntryDetails router \<noteq> None)"
    by (simp add: installed_getCompletionEntryDetails split: option.split)
  have iff_getQuickInfoAtPosition:
    "(wrapped_getQuickInfoAtPosition (wrappers ?proxy) \<noteq> None) = (getQuickInfoAtPosition router \<noteq> None)"
    by (simp add: installed_getQuickInfoAtPosition split: option.split)
  have iff_getDefinitionAtPosition:
    "(wrapped_getDefinitionAtPosition (wrappers ?proxy) \<noteq> None) = (getDefinitionAtPosition router \<noteq> None)"
    by (simp add: installed_getDefinitionAtPosition split: option.split)
  have iff_getDefinitionAndBoundSpan:
    "(wrapped_getDefinitionAndBoundSpan (wrappers ?proxy) \<noteq> None) = (getDefinitionAndBoundSpan router \<noteq> None)"
    by (simp add: installed_getDefinitionAndBoundSpan split: option.split)
  have iff_getSemanticDiagnostics:
    "(wrapped_getSemanticDiagnostics (wrappers ?proxy) \<noteq> None) = (getSemanticDiagnostics router \<noteq> None)"
    by (simp add: installed_getSemanticDiagnostics split: option.split)
  have iff_getSyntacticDiagnostics:
    "(wrapped_getSyntacticDiagnostics (wrappers ?proxy) \<noteq> None) = (getSyntacticDiagnostics router \<noteq> None)"
    by (simp add: installed_getSyntacticDiagnostics split: option.split)
  have iff_getFormattingEditsForRange:
    "(wrapped_getFormattingEditsForRange (wrappers ?proxy) \<noteq> None) = (getFormattingEditsForRange router \<noteq> None)"
    by (simp add: installed_getFormattingEditsForRange split: option.split)
  have iff_getCodeFixesAtPosition:
    "(wrapped_getCodeFixesAtPosition (wrappers ?proxy) \<noteq> None) = (getCodeFixesAtPosition router \<noteq> None)"
    by (simp add: installed_getCodeFixesAtPosition split: option.split)
  have iff_getSignatureHelpItems:
    "(wrapped_getSignatureHelpItems (wrappers ?proxy) \<noteq> None) = (getSignatureHelpItemsAtPosition router \<noteq> None)"
    by (simp add: installed_getSignatureHelpItems split: option.split)
  have iff_getOutliningSpans:
    "(wrapped_getOutliningSpans (wrappers ?proxy) \<noteq> None) = (getOutliningSpans router \<noteq> None)"
    by (simp add: installed_getOutliningSpans split: option.split)
  have iff_findReferences:
    "(wrapped_findReferences (wrappers ?proxy) \<noteq> None) = (getReferencesAtPosition router \<noteq> None)"
    by (simp add: installed_findReferences split: option.split)
  have iff_getJsxClosingTagAtPosition:
    "(wrapped_getJsxClosingTagAtPosition (wrappers ?proxy) \<noteq> None) = (getJsxClosingTagAtPosition router \<noteq> None)"
    by (simp add: installed_getJsxClosingTagAtPosition split: option.split)
  have registry:
    "snd (TSLanguageServiceProxy ctx router provider ts)
     = (case getSupportedCodeFixes router of
          None \<Rightarrow> ts
        | Some handler \<Rightarrow>
            ts\<lparr>ts_getSupportedCodeFixes :=
                 (\<lambda>_. ts_getSupportedCodeFixes ts () @ map (\<lambda>x. String x) (handler ()))\<rparr>)"
    by (simp add: constructed_ts wrapGetSupportedCodeFixes_def Let_def split: option.split)
  show ?thesis
    by (intro conjI)
      (rule pass_getCompletionsAtPosition,
       rule pass_getCompletionEntryDetails,
       rule pass_getQuickInfoAtPosition,
       rule pass_getDefinitionAtPosition,
       rule pass_getDefinitionAndBoundSpan,
       rule pass_getSemanticDiagnostics,
       rule pass_getSyntacticDiagnostics,
       rule pass_getFormattingEditsForRange,
       rule pass_getCodeFixesAtPosition,
       rule pass_getSignatureHelpItems,
       rule pass_getOutliningSpans,
       rule pass_findReferences,
       rule pass_getJsxClosingTagAtPosition,
       rule pass_other,
       rule iff_getCompletionsAtPosition,
       rule iff_getCompletionEntryDetails,
       rule iff_getQuickInfoAtPosition,
       rule iff_getDefinitionAtPosition,
       rule iff_getDefinitionAndBoundSpan,
       rule iff_getSemanticDiagnostics,
       rule iff_getSyntacticDiagnostics,
       rule iff_getFormattingEditsForRange,
       rule iff_getCodeFixesAtPosition,
       rule iff_getSignatureHelpItems,
       rule iff_getOutliningSpans,
       rule iff_findReferences,
       rule iff_getJsxClosingTagAtPosition,
       rule registry)
qed

theorem decorate_pass_through_witness:
  "wrapped_getCompletionsAtPosition
     (wrappers (fst (TSLanguageServiceProxy \<lparr>service = sampleHost\<rparr> noService
        (locatorOf sampleTemplates) sampleTs))) = None \<and>
   proxy_getCompletionsAtPosition
     (decorate (fst (TSLanguageServiceProxy \<lparr>service = sampleHost\<rparr> noService
        (locatorOf sampleTemplates) sampleTs)))
     ''a.ts'' 10 ''opts''
   = (raw_getCompletionsAtPosition sampleHost ''a.ts'' 10 ''opts'', [CallOriginal]) \<and>
   wrapped_getCompletionEntryDetails
     (wrappers (fst (TSLanguageServiceProxy \<lparr>service = sampleHost\<rparr> noService
        (locatorOf sampleTemplates) sampleTs))) = None \<and>
   proxy_getCompletionEntryDetails
     (decorate (fst (TSLanguageServiceProxy \<lparr>service = sampleHost\<rparr> noService
        (locatorOf sampleTemplates) sampleTs)))
     ''a.ts'' 10 ''click'' ''opts''
   = (raw_getCompletionEntryDetails sampleHost ''a.ts'' 10 ''click'' ''opts'', [CallOriginal]) \<and>
   wrapped_getQuickInfoAtPosition
     (wrappers (fst (TSLanguageServiceProxy \<lparr>service = sampleHost\<rparr> noService
        (locatorOf sampleTemplates) sampleTs))) = None \<and>
   proxy_getQuickInfoAtPosition
     (decorate (fst (TSLanguageServiceProxy \<lparr>service = sampleHost\<rparr> noService
        (locatorOf sampleTemplates) sampleTs)))
     ''a.ts'' 10
   = (raw_getQuickInfoAtPosition sampleHost ''a.ts'' 10, [CallOriginal]) \<and>
   wrapped_getDefinitionAtPosition
     (wrappers (fst (TSLanguageServiceProxy \<lparr>service = sampleHost\<rparr> noService
        (locatorOf sampleTemplates) sampleTs))) = None \<and>
   proxy_getDefinitionAtPosition
     (decorate (fst (TSLanguageServiceProxy \<lparr>service = sampleHost\<rparr> noService
        (locatorOf sampleTemplates) sampleTs)))
     ''a.ts'' 10
   = (raw_getDefinitionAtPosition sampleHost ''a.ts'' 10, [CallOriginal]) \<and>
   wrapped_getDefinitionAndBoundSpan
     (wrappers (fst (TSLanguageServiceProxy \<lparr>service = sampleHost\<rparr> noService
        (locatorOf sampleTemplates) sampleTs))) = None \<and>
   proxy_getDefinitionAndBoundSpan
     (decorate (fst (TSLanguageServiceProxy \<lparr>service = sampleHost\<rparr> noService
        (locatorOf sampleTemplates) sampleTs)))
     ''a.ts'' 10
   = (raw_getDefinitionAndBoundSpan sampleHost ''a.ts'' 10, [CallOriginal]) \<and>
   wrapped_getSemanticDiagnostics
     (wrappers (fst (TSLanguageServiceProxy \<lparr>service = sampleHost\<rparr> noService
        (locatorOf sampleTemplates) sampleTs))) = None \<and>
   proxy_getSemanticDiagnostics
     (decorate (fst (TSLanguageServiceProxy \<lparr>service = sampleHost\<rparr> noService
        (locatorOf sampleTemplates) sampleTs)))
     ''a.ts''
   = (raw_getSemanticDiagnostics sampleHost ''a.ts'', [CallOriginal]) \<and>
   wrapped_getSyntacticDiagnostics
     (wrappers (fst (TSLanguageServiceProxy \<lparr>service = sampleHost\<rparr> noService
        (locatorOf sampleTemplates) sampleTs))) = None \<and>
   proxy_getSyntacticDiagnostics
     (decorate (fst (TSLanguageServiceProxy \<lparr>service = sampleHost\<rparr> noService
        (locatorOf sampleTemplates) sampleTs)))
     ''a.ts''
   = (raw_getSyntacticDiagnostics sampleHost ''a.ts'', [CallOriginal]) \<and>
   wrapped_getFormattingEditsForRange
     (wrappers (fst (TSLanguageServiceProxy \<lparr>service = sampleHost\<rparr> noService
        (locatorOf sampleTemplates) sampleTs))) = None \<and>
   proxy_getFormattingEditsForRange
     (decorate (fst (TSLanguageServiceProxy \<lparr>service = sampleHost\<rparr> noService
        (locatorOf sampleTemplates) sampleTs)))
     ''a.ts'' 0 10 ''opts''
   = (raw_getFormattingEditsForRange sampleHost ''a.ts'' 0 10 ''opts'', [CallOriginal]) \<and>
   wrapped_getCodeFixesAtPosition
     (wrappers (fst (TSLanguageServiceProxy \<lparr>service = sampleHost\<rparr> noService
        (locatorOf sampleTemplates) sampleTs))) = None \<and>
   proxy_getCodeFixesAtPosition
     (decorate (fst (TSLanguageServiceProxy \<lparr>service = sampleHost\<rparr> noService
        (locatorOf sampleTemplates) sampleTs)))
     ''a.ts'' 0 10 [9001] ''opts'' ''prefs''
   = (raw_getCodeFixesAtPosition sampleHost ''a.ts'' 0 10 [9001] ''opts'' ''prefs'', [CallOriginal]) \<and>
   wrapped_getSignatureHelpItems
     (wrappers (fst (TSLanguageServiceProxy \<lparr>service = sampleHost\<rparr> noService
        (locatorOf sampleTemplates) sampleTs))) = None \<and>
   proxy_getSignatureHelpItems
     (decorate (fst (TSLanguageServiceProxy \<lparr>service = sampleHost\<rparr> noService
        (locatorOf sampleTemplates) sampleTs)))
     ''a.ts'' 10 None
   = (raw_getSignatureHelpItems sampleHost ''a.ts'' 10 None, [CallOriginal]) \<and>
   wrapped_getOutliningSpans
     (wrappers (fst (TSLanguageServiceProxy \<lparr>service = sampleHost\<rparr> noService
        (locatorOf sampleTemplates) sampleTs))) = None \<and>
   proxy_getOutliningSpans
     (decorate (fst (TSLanguageServiceProxy \<lparr>service = sampleHost\<rparr> noService
        (locatorOf sampleTemplates) sampleTs)))
     ''a.ts''
   = (raw_getOutliningSpans sampleHost ''a.ts'', [CallOriginal]) \<and>
   wrapped_findReferences
     (wrappers (fst (TSLanguageServiceProxy \<lparr>service = sampleHost\<rparr> noService
        (locatorOf sampleTemplates) sampleTs))) = None \<and>
   proxy_findReferences
     (decorate (fst (TSLanguageServiceProxy \<lparr>service = sampleHost\<rparr> noService
        (locatorOf sampleTemplates) sampleTs)))
     ''a.ts'' 10
   = (raw_findReferences sampleHost ''a.ts'' 10, [CallOriginal]) \<and>
   wrapped_getJsxClosingTagAtPosition
     (wrappers (fst (TSLanguageServiceProxy \<lparr>service = sampleHost\<rparr> noService
        (locatorOf sampleTemplates) sampleTs))) = None \<and>
   proxy_getJsxClosingTagAtPosition
     (decorate (fst (TSLanguageServiceProxy \<lparr>service = sampleHost\<rparr> noService
        (locatorOf sampleTemplates) sampleTs)))
     ''a.ts'' 10
   = (raw_getJsxClosingTagAtPosition sampleHost ''a.ts'' 10, [CallOriginal]) \<and>
   proxy_otherOperations
     (decorate (fst (TSLanguageServiceProxy \<lparr>service = sampleHost\<rparr> noService
        (locatorOf sampleTemplates) sampleTs)))
     ''getRenameInfo'' [''a.ts'', ''10'']
   = (raw_otherOperations sampleHost ''getRenameInfo'' [''a.ts'', ''10''], [CallOriginal]) \<and>
   snd (TSLanguageServiceProxy \<lparr>service = sampleHost\<rparr> noService
        (locatorOf sampleTemplates) sampleTs) = sampleTs \<and>
   wrapped_findReferences
     (wrappers (fst (TSLanguageServiceProxy \<lparr>service = sampleHost\<rparr>
        (noService\<lparr>getReferencesAtPosition := Some sampleReferences\<rparr>)
        (locatorOf sampleTemplates) sampleTs))) \<noteq> None \<and>
   wrapped_getQuickInfoAtPosition
     (wrappers (fst (TSLanguageServiceProxy \<lparr>service = sampleHost\<rparr>
        (noService\<lparr>getReferencesAtPosition := Some sampleReferences\<rparr>)
        (locatorOf sampleTemplates) sampleTs))) = None \<and>
   proxy_getQuickInfoAtPosition
     (decorate (fst (TSLanguageServiceProxy \<lparr>service = sampleHost\<rparr>
        (noService\<lparr>getReferencesAtPosition := Some sampleReferences\<rparr>)
        (locatorOf sampleTemplates) sampleTs)))
     ''a.ts'' 10
   = (raw_getQuickInfoAtPosition sampleHost ''a.ts'' 10, [CallOriginal])"
  using decorate_pass_through
    [of "\<lparr>service = sampleHost\<rparr>" noService "locatorOf sampleTemplates" sampleTs]
    decorate_pass_through
    [of "\<lparr>service = sampleHost\<rparr>"
        "noService\<lparr>getReferencesAtPosition := Some sampleReferences\<rparr>"
        "locatorOf sampleTemplates" sampleTs]
  by (simp add: noService_def)

section \<open>Syntactic diagnostics: the template diagnostics are not merged\<close>

lemma syntactic_wrapper:
  "getSyntacticDiagnosticsWrapper \<lparr>templateService = router, templateProvider = provider\<rparr>
     handler callOriginal fileName
   = (callOriginal (),
      map (\<lambda>template. CallTemplateService ''getSyntacticDiagnostics'' template [])
        (getAllTemplates provider fileName) @ [CallOriginal])"
  by (simp add: getSyntacticDiagnosticsWrapper_def fold_append_self)

lemma syntactic_result:
  assumes "getSyntacticDiagnostics router = Some handler"
  shows
   "proxy_getSyntacticDiagnostics
      (decorate (fst (TSLanguageServiceProxy ctx router provider ts))) fileName
    = (raw_getSyntacticDiagnostics (service ctx) fileName,
       map (\<lambda>template. CallTemplateService ''getSyntacticDiagnostics'' template [])
         (getAllTemplates provider fileName) @ [CallOriginal])"
  using assms
  by (simp add: decorate_getSyntacticDiagnostics installed_getSyntacticDiagnostics
      decorated_service syntactic_wrapper)

text \<open>
  Claim C2 says that \<open>getSyntacticDiagnostics\<close> on the decorated service returns the
  host's diagnostics followed by the translated diagnostics of every template. The code
  pushes the accumulator onto itself, so the accumulator stays empty: on the sample
  document, whose two templates each have one syntactic diagnostic, the handler is called
  for both templates and the result holds the host's diagnostic alone.
\<close>

theorem syntactic_diagnostics_of_templates_lost:
  "sampleDiagnostics \<lparr>globalStart = 7, globalEnd = 16\<rparr>
   = [\<lparr>diag_start = 1, diag_length = 2, diag_code = 9001, diag_messageText = ''template''\<rparr>] \<and>
   sampleDiagnostics \<lparr>globalStart = 43, globalEnd = 52\<rparr>
   = [\<lparr>diag_start = 1, diag_length = 2, diag_code = 9001, diag_messageText = ''template''\<rparr>] \<and>
   proxy_getSyntacticDiagnostics
     (decorate (fst (TSLanguageServiceProxy \<lparr>service = sampleHost\<rparr>
        (noService\<lparr>getSyntacticDiagnostics := Some sampleDiagnostics\<rparr>)
        (locatorOf sampleTemplates) sampleTs)))
     ''a.ts''
   = ([\<lparr>diag_start = 0, diag_length = 1, diag_code = 1005, diag_messageText = ''host''\<rparr>],
      [CallTemplateService ''getSyntacticDiagnostics'' \<lparr>globalStart = 7, globalEnd = 16\<rparr> [],
       CallTemplateService ''getSyntacticDiagnostics'' \<lparr>globalStart = 43, globalEnd = 52\<rparr> [],
       CallOriginal])"
proof -
  have implemented:
    "getSyntacticDiagnostics (noService\<lparr>getSyntacticDiagnostics := Some sampleDiagnostics\<rparr>)
       = Some sampleDiagnostics"
    by simp
  show ?thesis
    by (simp add: syntactic_result [OF implemented] sample_locator sampleDiagnostics_def
        sampleHost_def)
qed

section \<open>Quick info: guarded by the wrong method\<close>

lemma quickInfo_result:
  assumes "getQuickInfoAtPosition router = Some handler"
    and "getTemplateAt provider fileName gloOffset = Some template"
  shows
   "proxy_getQuickInfoAtPosition
      (decorate (fst (TSLanguageServiceProxy ctx router provider ts))) fileName gloOffset
    = (case getCompletionEntryDetails router of
         Some _ \<Rightarrow>
           (map_option
              (\<lambda>info. info\<lparr>quick_textSpan := translateTextSpan (quick_textSpan info) template\<rparr>)
              (handler template (globalOffsetToLocal template gloOffset)),
            [CallTemplateService ''getQuickInfoAtPosition'' template
               [globalOffsetToLocal template gloOffset]])
       | None \<Rightarrow> (None, []))"
  using assms
  by (simp add: decorate_getQuickInfoAtPosition installed_getQuickInfoAtPosition
      decorated_service getQuickInfoAtPositionWrapper_def Let_def split: option.split)

text \<open>
  Claim C5 says that \<open>getQuickInfoAtPosition\<close> on the decorated service, whenever the
  template service implements \<open>getQuickInfoAtPosition\<close> and a template contains the
  offset, calls that handler with the local offset and returns its result with the text
  span translated. The wrapper tests \<open>getCompletionEntryDetails\<close> before the call: for
  a template service that implements \<open>getQuickInfoAtPosition\<close> alone, at offset 10
  inside the template \<open>[7,16)\<close>, where the handler has a result for the local offset 3,
  the decorated operation returns \<open>undefined\<close> and calls neither handler nor host.
\<close>

theorem quickInfo_lost_without_entry_details:
  "getQuickInfoAtPosition (noService\<lparr>getQuickInfoAtPosition := Some sampleQuickInfo\<rparr>)
   = Some sampleQuickInfo \<and>
   getTemplateAt (locatorOf sampleTemplates) ''a.ts'' 10
   = Some \<lparr>globalStart = 7, globalEnd = 16\<rparr> \<and>
   sampleQuickInfo \<lparr>globalStart = 7, globalEnd = 16\<rparr>
     (globalOffsetToLocal \<lparr>globalStart = 7, globalEnd = 16\<rparr> 10)
   = Some \<lparr>quick_kind = ''property'',
           quick_textSpan = Some \<lparr>span_start = 3, span_length = 2\<rparr>,
           quick_displayParts = ''template''\<rparr> \<and>
   proxy_getQuickInfoAtPosition
     (decorate (fst (TSLanguageServiceProxy \<lparr>service = sampleHost\<rparr>
        (noService\<lparr>getQuickInfoAtPosition := Some sampleQuickInfo\<rparr>)
        (locatorOf sampleTemplates) sampleTs)))
     ''a.ts'' 10
   = (None, [])"
proof -
  have implemented:
    "getQuickInfoAtPosition (noService\<lparr>getQuickInfoAtPosition := Some sampleQuickInfo\<rparr>)
       = Some sampleQuickInfo"
    by simp
  have absent:
    "getCompletionEntryDetails (noService\<lparr>getQuickInfoAtPosition := Some sampleQuickInfo\<rparr>)
       = None"
    by (simp add: noService_def)
  show ?thesis
    by (simp add: quickInfo_result [OF implemented sample_locator(2)] absent sample_locator
        sampleQuickInfo_def globalOffsetToLocal_def)
qed

end
